theory Spec2Isabelle
  imports Complex_Main "HOL-Library.Product_Lexorder"
begin

section \<open>JavaScript values as the program sees them\<close>

text \<open>
  The relay handles data that \<^verbatim>\<open>JSON.parse\<close> produced from the reply of the
  GraphQL endpoint. The TypeScript interfaces of \<^verbatim>\<open>morphoMarkets.ts\<close>
  (\<^verbatim>\<open>FetchedMorphoMarket\<close>, \<^verbatim>\<open>MarketState\<close>, ...) are erased at run time and the
  code validates nothing below \<^verbatim>\<open>data.markets.items\<close>, so a market is whatever
  JSON value sits in the array. The model therefore works on JSON values with the
  semantics JavaScript gives to property reads, truthiness and conversions.

  \<^item> \<open>JNum r\<close> is the number (an IEEE double) nearest to the rational \<open>r\<close>. The
    model only tests such a number against zero and passes it on.
  \<^item> \<open>JObj kvs\<close> lists the own properties of an object, keys distinct, as
    \<^verbatim>\<open>JSON.parse\<close> delivers them.
  \<^item> A string is a list of code units.
\<close>

datatype jsval =
    JUndefined
  | JNull
  | JBool bool
  | JNum rat
  | JStr string
  | JArr "jsval list"
  | JObj "(string \<times> jsval) list"

text \<open>
  Numbers that the program computes (\<^verbatim>\<open>Number(..)\<close>, \<^verbatim>\<open>/\<close>, \<^verbatim>\<open>*\<close>,
  \<^verbatim>\<open>Math.pow\<close>) are doubles. Their arithmetic is not interpreted: a computed
  number is kept as the expression that the code evaluates, over the values
  that enter it.
\<close>

datatype double =
    FVal rat
  | FNaN
  | FDiv double double
  | FMul double double
  | FPow double double

text \<open>
  What the program throws: a native error (\<^verbatim>\<open>TypeError\<close>, \<^verbatim>\<open>SyntaxError\<close>, a
  rejected \<^verbatim>\<open>fetch\<close>), of which only the message is ever read, or one of the
  plain objects that \<^verbatim>\<open>morphoMarkets.ts\<close> builds with the properties
  \<^verbatim>\<open>message\<close>, \<^verbatim>\<open>status\<close> and either \<^verbatim>\<open>details\<close> or \<^verbatim>\<open>rawResponse\<close>
  (\<open>None\<close> is a property that the object does not have).
\<close>

record thrown_obj =
  message :: string
  status :: nat
  details :: "jsval option"
  rawResponse :: "string option"

datatype exn =
    Native string
  | Thrown thrown_obj

subsection \<open>Primitives of the runtime and of the outside world\<close>

record MarketFilters =
  loanAssetAddress_in :: "string option"
  whitelisted :: "bool option"

record FetchMarketsVariables =
  where_filter :: "MarketFilters option"
  first :: "rat option"
  orderBy :: "string option"

record MarketParams =
  loanToken :: jsval
  collateralToken :: jsval
  "oracle" :: jsval
  irm :: jsval
  lltv :: string

record MarketStruct =
  totalSupplyAssets :: string
  totalSupplyShares :: string
  totalBorrowAssets :: string
  totalBorrowShares :: string
  lastUpdate :: string
  fee :: string

text \<open>The reply to the one \<^verbatim>\<open>POST\<close>: the request fails, or a status and a body arrive.\<close>

datatype transport =
    Failed string
  | Response nat string

text \<open>
  Everything that is not code of the repository is a parameter of the model:
  \<^item> \<open>JSON_parse\<close>: \<^verbatim>\<open>JSON.parse\<close>; \<open>Inl msg\<close> is a \<^verbatim>\<open>SyntaxError\<close> with that message;
  \<^item> \<open>NumberToString\<close>, \<open>StringToNumber\<close>: the conversions between doubles and
    strings (\<open>None\<close> is \<^verbatim>\<open>NaN\<close>);
  \<^item> \<open>fetch_graphql\<close>: what \<^verbatim>\<open>fetch\<close> and \<^verbatim>\<open>response.text()\<close> give for the request
    that carries these variables;
  \<^item> \<open>writeFileSync\<close>: whether writing this text to the diagnostic file succeeds;
  \<^item> \<open>borrowRateView\<close>: the result of the contract call issued as the \<open>n\<close>-th
    outbound call of the request (\<open>None\<close>: the call throws);
  \<^item> \<open>settle_time\<close>: when the \<open>n\<close>-th outbound call settles.
\<close>

record env =
  JSON_parse :: "string \<Rightarrow> string + jsval"
  NumberToString :: "rat \<Rightarrow> string"
  StringToNumber :: "string \<Rightarrow> rat option"
  fetch_graphql :: "FetchMarketsVariables \<Rightarrow> transport"
  writeFileSync :: "string \<Rightarrow> bool"
  borrowRateView :: "nat \<Rightarrow> MarketParams \<Rightarrow> MarketStruct \<Rightarrow> nat option"
  settle_time :: "nat \<Rightarrow> nat"

text \<open>The effects of a request: the outbound calls in order, and the diagnostic file.\<close>

datatype event =
    GraphQLRequest FetchMarketsVariables
  | ChainCall MarketParams MarketStruct

record world =
  calls :: "event list"
  raw_file :: "string option"

subsection \<open>Property reads, truthiness, conversions\<close>

fun nullish :: "jsval \<Rightarrow> bool" where
  "nullish JUndefined = True"
| "nullish JNull = True"
| "nullish _ = False"

fun truthy :: "jsval \<Rightarrow> bool" where
  "truthy JUndefined = False"
| "truthy JNull = False"
| "truthy (JBool b) = b"
| "truthy (JNum r) = (r \<noteq> 0)"
| "truthy (JStr s) = (s \<noteq> [])"
| "truthy (JArr xs) = True"
| "truthy (JObj kvs) = True"

definition own :: "(string \<times> jsval) list \<Rightarrow> string \<Rightarrow> jsval" where
  "own kvs k = (case map_of kvs k of None \<Rightarrow> JUndefined | Some v \<Rightarrow> v)"

text \<open>
  \<^verbatim>\<open>v.k\<close> for a value that is neither \<^verbatim>\<open>null\<close> nor \<^verbatim>\<open>undefined\<close>. Of the names
  the program reads, only \<^verbatim>\<open>length\<close> exists on strings and arrays; the others
  are own properties of an object or absent.
\<close>

fun prop_of :: "jsval \<Rightarrow> string \<Rightarrow> jsval" where
  "prop_of (JObj kvs) k = own kvs k"
| "prop_of (JArr xs) k = (if k = ''length'' then JNum (of_nat (length xs)) else JUndefined)"
| "prop_of (JStr s) k = (if k = ''length'' then JNum (of_nat (length s)) else JUndefined)"
| "prop_of _ k = JUndefined"

definition cannot_read :: "jsval \<Rightarrow> string \<Rightarrow> exn" where
  "cannot_read v k = Native (''Cannot read properties of ''
     @ (if v = JNull then ''null'' else ''undefined'') @ '' (reading '' @ [CHR 0x27] @ k @ [CHR 0x27] @ '')'')"

text \<open>\<^verbatim>\<open>v.k\<close>: a \<^verbatim>\<open>TypeError\<close> on \<^verbatim>\<open>null\<close> and \<^verbatim>\<open>undefined\<close>.\<close>

definition get :: "jsval \<Rightarrow> string \<Rightarrow> exn + jsval" where
  "get v k = (if nullish v then Inl (cannot_read v k) else Inr (prop_of v k))"

text \<open>\<^verbatim>\<open>v?.k\<close>\<close>

definition opt_get :: "jsval \<Rightarrow> string \<Rightarrow> jsval" where
  "opt_get v k = (if nullish v then JUndefined else prop_of v k)"

text \<open>\<^verbatim>\<open>a || b\<close>\<close>

definition or_else :: "jsval \<Rightarrow> jsval \<Rightarrow> jsval" where
  "or_else a b = (if truthy a then a else b)"

text \<open>\<^verbatim>\<open>v[0]\<close> for a value that is neither \<^verbatim>\<open>null\<close> nor \<^verbatim>\<open>undefined\<close>.\<close>

fun index0 :: "jsval \<Rightarrow> jsval" where
  "index0 (JArr xs) = (case xs of [] \<Rightarrow> JUndefined | x # _ \<Rightarrow> x)"
| "index0 (JStr s) = (case s of [] \<Rightarrow> JUndefined | c # _ \<Rightarrow> JStr [c])"
| "index0 (JObj kvs) = own kvs ''0''"
| "index0 _ = JUndefined"

definition not_primitive :: exn where
  "not_primitive = Native ''Cannot convert object to primitive value''"

text \<open>
  \<^verbatim>\<open>String(v)\<close> and \<^verbatim>\<open>${v}\<close>. An array is joined with commas, \<^verbatim>\<open>null\<close> and
  \<^verbatim>\<open>undefined\<close> elements giving the empty string. A parsed object prints as
  \<^verbatim>\<open>[object Object]\<close> through \<^verbatim>\<open>Object.prototype.toString\<close>, unless an own
  property \<^verbatim>\<open>toString\<close> (never callable in parsed JSON) hides that method:
  then no method yields a primitive and the conversion throws.
\<close>

fun ToString :: "env \<Rightarrow> jsval \<Rightarrow> exn + string"
  and join :: "env \<Rightarrow> jsval list \<Rightarrow> exn + string" where
  "ToString rt JUndefined = Inr ''undefined''"
| "ToString rt JNull = Inr ''null''"
| "ToString rt (JBool b) = Inr (if b then ''true'' else ''false'')"
| "ToString rt (JNum r) = Inr (NumberToString rt r)"
| "ToString rt (JStr s) = Inr s"
| "ToString rt (JArr xs) = join rt xs"
| "ToString rt (JObj kvs) =
     (if ''toString'' \<in> set (map fst kvs) then Inl not_primitive else Inr ''[object Object]'')"
| "join rt [] = Inr ''''"
| "join rt (x # xs) =
     (case (if nullish x then Inr '''' else ToString rt x) of
        Inl e \<Rightarrow> Inl e
      | Inr s \<Rightarrow>
          (if xs = [] then Inr s
           else (case join rt xs of Inl e \<Rightarrow> Inl e | Inr t \<Rightarrow> Inr (s @ '','' @ t))))"

definition str_num :: "env \<Rightarrow> string \<Rightarrow> double" where
  "str_num rt s = (case StringToNumber rt s of None \<Rightarrow> FNaN | Some r \<Rightarrow> FVal r)"

text \<open>\<^verbatim>\<open>Number(v)\<close>, also the conversion of an operand of \<^verbatim>\<open>Math.pow\<close> and \<^verbatim>\<open>>\<close>.\<close>

fun Number :: "env \<Rightarrow> jsval \<Rightarrow> exn + double" where
  "Number rt JUndefined = Inr FNaN"
| "Number rt JNull = Inr (FVal 0)"
| "Number rt (JBool b) = Inr (FVal (if b then 1 else 0))"
| "Number rt (JNum r) = Inr (FVal r)"
| "Number rt (JStr s) = Inr (str_num rt s)"
| "Number rt v = (case ToString rt v of Inl e \<Rightarrow> Inl e | Inr s \<Rightarrow> Inr (str_num rt s))"

text \<open>\<^verbatim>\<open>v > 0\<close>\<close>

definition gt0 :: "env \<Rightarrow> jsval \<Rightarrow> exn + bool" where
  "gt0 rt v =
     (case Number rt v of
        Inl e \<Rightarrow> Inl e
      | Inr d \<Rightarrow> Inr (case d of FVal r \<Rightarrow> 0 < r | _ \<Rightarrow> False))"

text \<open>
  \<^verbatim>\<open>v.toString()\<close>: the method of the value's prototype, which for the values
  above gives what \<^verbatim>\<open>String(v)\<close> gives; \<^verbatim>\<open>null\<close> and \<^verbatim>\<open>undefined\<close> have no
  properties, and an own property \<^verbatim>\<open>toString\<close> of a parsed object is not a
  function.
\<close>

definition call_toString :: "env \<Rightarrow> jsval \<Rightarrow> exn + string" where
  "call_toString rt v =
     (if nullish v then Inl (cannot_read v ''toString'')
      else (case v of
              JObj kvs \<Rightarrow>
                (if ''toString'' \<in> set (map fst kvs) then Inl (Native ''toString is not a function'')
                 else Inr ''[object Object]'')
            | _ \<Rightarrow> ToString rt v))"

text \<open>Decimal digits of a natural number: how an integer such as an HTTP status
  or a \<^verbatim>\<open>BigNumber\<close> prints.\<close>

definition digit :: "nat \<Rightarrow> char" where
  "digit d =
     (if d = 0 then CHR ''0'' else if d = 1 then CHR ''1'' else if d = 2 then CHR ''2''
      else if d = 3 then CHR ''3'' else if d = 4 then CHR ''4'' else if d = 5 then CHR ''5''
      else if d = 6 then CHR ''6'' else if d = 7 then CHR ''7'' else if d = 8 then CHR ''8''
      else CHR ''9'')"

fun show_nat :: "nat \<Rightarrow> string" where
  "show_nat n = (if n < 10 then [digit n] else show_nat (n div 10) @ [digit (n mod 10)])"

declare show_nat.simps [simp del]


section \<open>The market fetcher (\<^verbatim>\<open>morphoMarkets.ts\<close>)\<close>

text \<open>\<^verbatim>\<open>try { body } catch (e) { handler }\<close>\<close>

definition try_catch :: "exn + 'a \<Rightarrow> (exn \<Rightarrow> exn + 'a) \<Rightarrow> exn + 'a" where
  "try_catch body handler = (case body of Inl e \<Rightarrow> handler e | Inr v \<Rightarrow> Inr v)"

text \<open>What the \<^verbatim>\<open>catch\<close> clauses read from the value they caught.\<close>

fun err_message :: "exn \<Rightarrow> string" where
  "err_message (Native m) = m"
| "err_message (Thrown t) = message t"

text \<open>\<^verbatim>\<open>error.status\<close>, \<^verbatim>\<open>error.details\<close>, \<^verbatim>\<open>error.rawResponse\<close> as conditions.\<close>

fun has_status :: "exn \<Rightarrow> bool" where
  "has_status (Native m) = False"
| "has_status (Thrown t) = (status t \<noteq> 0)"

fun has_details :: "exn \<Rightarrow> bool" where
  "has_details (Native m) = False"
| "has_details (Thrown t) = (case details t of None \<Rightarrow> False | Some v \<Rightarrow> truthy v)"

fun has_rawResponse :: "exn \<Rightarrow> bool" where
  "has_rawResponse (Native m) = False"
| "has_rawResponse (Thrown t) = (case rawResponse t of None \<Rightarrow> False | Some s \<Rightarrow> s \<noteq> [])"

text \<open>\<^verbatim>\<open>error.status || 500\<close>\<close>

definition status_or_500 :: "exn \<Rightarrow> nat" where
  "status_or_500 e = (case e of Thrown t \<Rightarrow> (if status t \<noteq> 0 then status t else 500) | Native m \<Rightarrow> 500)"

text \<open>
  The caught value itself, where the code passes it on as data. An \<^verbatim>\<open>Error\<close>
  instance has no enumerable property of its own.
\<close>

fun exn_value :: "exn \<Rightarrow> jsval" where
  "exn_value (Native m) = JObj []"
| "exn_value (Thrown t) =
     JObj ([(''message'', JStr (message t)), (''status'', JNum (of_nat (status t)))]
           @ (case details t of None \<Rightarrow> [] | Some v \<Rightarrow> [(''details'', v)])
           @ (case rawResponse t of None \<Rightarrow> [] | Some s \<Rightarrow> [(''rawResponse'', JStr s)]))"

text \<open>
  \<^verbatim>\<open>saveRawResponse\<close>: the write is attempted; when it throws, the error is
  logged and nothing else happens.
\<close>

definition saveRawResponse :: "env \<Rightarrow> string \<Rightarrow> world \<Rightarrow> world" where
  "saveRawResponse rt responseText w =
     (if writeFileSync rt responseText then w\<lparr>raw_file := Some responseText\<rparr> else w)"

text \<open>
  \<^verbatim>\<open>handleGraphQLError\<close> (return type \<^verbatim>\<open>never\<close>). The \<^verbatim>\<open>throw\<close> of the object
  that carries \<^verbatim>\<open>details\<close> stands inside the \<^verbatim>\<open>try\<close> block, as \<^verbatim>\<open>JSON.parse\<close>
  does, so the \<^verbatim>\<open>catch\<close> clause of that block receives both.
\<close>

definition handleGraphQLError :: "env \<Rightarrow> nat \<Rightarrow> string \<Rightarrow> exn + unit" where
  "handleGraphQLError rt response_status responseText =
     try_catch
       (case JSON_parse rt responseText of
          Inl msg \<Rightarrow> Inl (Native msg)
        | Inr errorJson \<Rightarrow>
            Inl (Thrown \<lparr>message = ''HTTP error! status: '' @ show_nat response_status,
                         status = response_status,
                         details = Some errorJson,
                         rawResponse = None\<rparr>))
       (\<lambda>e. Inl (Thrown \<lparr>message = ''HTTP error! status: '' @ show_nat response_status
                                     @ ''. Response not JSON: '' @ responseText,
                          status = response_status,
                          details = None,
                          rawResponse = Some responseText\<rparr>))"

text \<open>\<^verbatim>\<open>response.ok\<close>\<close>

definition ok :: "nat \<Rightarrow> bool" where
  "ok response_status = (200 \<le> response_status \<and> response_status \<le> 299)"

text \<open>\<^verbatim>\<open>result.data?.markets?.items\<close>\<close>

definition items_of :: "jsval \<Rightarrow> exn + jsval" where
  "items_of result =
     (case get result ''data'' of
        Inl e \<Rightarrow> Inl e
      | Inr d \<Rightarrow> Inr (opt_get (opt_get d ''markets'') ''items''))"

text \<open>The \<^verbatim>\<open>catch\<close> clause that closes \<^verbatim>\<open>fetchMorphoMarketsAPI\<close>.\<close>

definition rethrow :: "exn \<Rightarrow> exn" where
  "rethrow error =
     (if has_status error \<and> has_details error then error
      else if has_status error \<and> has_rawResponse error then error
      else Thrown \<lparr>message = ''Failed to fetch or parse data from Morpho API.'',
                   status = status_or_500 error,
                   details = Some (if err_message error \<noteq> [] then JStr (err_message error)
                                   else exn_value error),
                   rawResponse = None\<rparr>)"

text \<open>The statements of the \<^verbatim>\<open>try\<close> block that follow \<^verbatim>\<open>saveRawResponse\<close>.\<close>

definition read_response :: "env \<Rightarrow> nat \<Rightarrow> string \<Rightarrow> exn + jsval" where
  "read_response rt response_status responseBodyText =
     (case (if \<not> ok response_status then handleGraphQLError rt response_status responseBodyText
            else Inr ()) of
        Inl e \<Rightarrow> Inl e
      | Inr u \<Rightarrow>
          (case JSON_parse rt responseBodyText of
             Inl msg \<Rightarrow> Inl (Native msg)
           | Inr result \<Rightarrow>
               (case items_of result of
                  Inl e \<Rightarrow> Inl e
                | Inr items \<Rightarrow>
                    (if truthy items then Inr items
                     else Inl (Thrown
                       \<lparr>message = ''GraphQL query successful but data not in expected structure'',
                        status = 500,
                        details = Some result,
                        rawResponse = None\<rparr>)))))"

definition fetchMorphoMarketsAPI ::
    "env \<Rightarrow> FetchMarketsVariables \<Rightarrow> world \<Rightarrow> (exn + jsval) \<times> world" where
  "fetchMorphoMarketsAPI rt variables w =
     (let w1 = w\<lparr>calls := calls w @ [GraphQLRequest variables]\<rparr> in
      case fetch_graphql rt variables of
        Failed msg \<Rightarrow> (Inl (rethrow (Native msg)), w1)
      | Response response_status responseBodyText \<Rightarrow>
          (let w2 = saveRawResponse rt responseBodyText w1 in
           (try_catch (read_response rt response_status responseBodyText)
                      (\<lambda>error. Inl (rethrow error)),
            w2)))"


section \<open>The rate enricher\<close>

text \<open>Sequencing of steps that may throw.\<close>

definition and_then :: "exn + 'a \<Rightarrow> ('a \<Rightarrow> exn + 'b) \<Rightarrow> exn + 'b" where
  "and_then r f = (case r of Inl e \<Rightarrow> Inl e | Inr v \<Rightarrow> f v)"

definition zero_address :: string where
  "zero_address = ''0x0000000000000000000000000000000000000000''"

definition buildMarketParams :: "env \<Rightarrow> jsval \<Rightarrow> exn + MarketParams" where
  "buildMarketParams rt market =
     and_then (and_then (get market ''loanAsset'') (\<lambda>loanAsset. get loanAsset ''address'')) (\<lambda>loanToken'.
     and_then (get market ''collateralAsset'') (\<lambda>collateralAsset.
     and_then (get market ''oracleAddress'') (\<lambda>oracle'.
     and_then (get market ''irmAddress'') (\<lambda>irm'.
     and_then (and_then (get market ''lltv'') (call_toString rt)) (\<lambda>lltv'.
       Inr \<lparr>loanToken = loanToken',
            collateralToken = or_else (opt_get collateralAsset ''address'') (JStr zero_address),
            oracle = oracle',
            irm = irm',
            lltv = lltv'\<rparr>)))))"

text \<open>\<^verbatim>\<open>market.state.k.toString()\<close>\<close>

definition state_string :: "env \<Rightarrow> jsval \<Rightarrow> string \<Rightarrow> exn + string" where
  "state_string rt market k =
     and_then (get market ''state'') (\<lambda>state.
     and_then (get state k) (call_toString rt))"

definition buildMarketStruct :: "env \<Rightarrow> jsval \<Rightarrow> exn + MarketStruct" where
  "buildMarketStruct rt market =
     and_then (state_string rt market ''supplyAssets'') (\<lambda>a.
     and_then (state_string rt market ''supplyShares'') (\<lambda>b.
     and_then (state_string rt market ''borrowAssets'') (\<lambda>c.
     and_then (state_string rt market ''borrowShares'') (\<lambda>d.
     and_then (state_string rt market ''timestamp'') (\<lambda>t.
     and_then (state_string rt market ''fee'') (\<lambda>f.
       Inr \<lparr>totalSupplyAssets = a, totalSupplyShares = b, totalBorrowAssets = c,
            totalBorrowShares = d, lastUpdate = t, fee = f\<rparr>))))))"

text \<open>
  \<^verbatim>\<open>getBorrowRateFromContract\<close>. \<open>Inr None\<close> is the \<^verbatim>\<open>null\<close> it returns. Its
  \<^verbatim>\<open>catch\<close> clause reads \<^verbatim>\<open>market.uniqueKey\<close> for the log line before it
  returns \<^verbatim>\<open>null\<close>.
\<close>

definition rate_failed :: "jsval \<Rightarrow> exn + string option" where
  "rate_failed market = and_then (get market ''uniqueKey'') (\<lambda>k. Inr None)"

definition getBorrowRateFromContract ::
    "env \<Rightarrow> jsval \<Rightarrow> world \<Rightarrow> (exn + string option) \<times> world" where
  "getBorrowRateFromContract rt market w =
     (case and_then (buildMarketParams rt market) (\<lambda>marketParams.
           and_then (buildMarketStruct rt market) (\<lambda>marketStruct.
             Inr (marketParams, marketStruct))) of
        Inl err \<Rightarrow> (rate_failed market, w)
      | Inr (marketParams, marketStruct) \<Rightarrow>
          (let w' = w\<lparr>calls := calls w @ [ChainCall marketParams marketStruct]\<rparr> in
           case borrowRateView rt (length (calls w)) marketParams marketStruct of
             None \<Rightarrow> (rate_failed market, w')
           | Some rate \<Rightarrow> (Inr (Some (show_nat rate)), w')))"

section \<open>The market transformer\<close>

record MarketOutputForCalculator =
  id' :: jsval
  name :: string
  network :: jsval
  protocol :: string
  source :: string
  token_price :: double
  total_supplied :: double
  total_borrowed :: double
  fee_percentage :: jsval
  optimal_usage_ratio :: double
  reserve_factor :: double
  yearlySupplyTokens :: string
  rewardTokenDecimals :: jsval
  rewardTokenPriceUsd :: string
  rate_per_second :: string

text \<open>The local constants of \<^verbatim>\<open>transformMarketData\<close> at its \<^verbatim>\<open>await\<close>.\<close>

record locals =
  loanAsset :: jsval
  collateralAsset :: jsval
  state :: jsval
  uniqueKey :: jsval
  network_local :: jsval
  reward :: jsval

definition cannot_destructure :: "jsval \<Rightarrow> exn" where
  "cannot_destructure market = Native (''Cannot destructure property '' @ [CHR 0x27] @ ''loanAsset''
     @ [CHR 0x27] @ '' of '' @ [CHR 0x27] @ ''market'' @ [CHR 0x27] @ '' as it is ''
     @ (if market = JNull then ''null'' else ''undefined'') @ ''.'')"

text \<open>
  \<^verbatim>\<open>state.rewards && state.rewards.length > 0 ? state.rewards[0] : null\<close>, given
  the value of \<^verbatim>\<open>state.rewards\<close>.
\<close>

definition first_reward :: "env \<Rightarrow> jsval \<Rightarrow> exn + jsval" where
  "first_reward rt rewards =
     (if truthy rewards
      then and_then (gt0 rt (prop_of rewards ''length''))
             (\<lambda>positive. Inr (if positive then index0 rewards else JNull))
      else Inr JNull)"

text \<open>The statements of \<^verbatim>\<open>transformMarketData\<close> up to the contract call.\<close>

definition transform_begin :: "env \<Rightarrow> jsval \<Rightarrow> exn + locals" where
  "transform_begin rt market =
     (if nullish market then Inl (cannot_destructure market)
      else
        (let loanAsset' = prop_of market ''loanAsset'';
             collateralAsset' = prop_of market ''collateralAsset'';
             state' = prop_of market ''state'';
             uniqueKey' = prop_of market ''uniqueKey''
         in and_then (get loanAsset' ''chain'') (\<lambda>chain.
            and_then (get state' ''rewards'') (\<lambda>rewards.
            and_then (first_reward rt rewards) (\<lambda>reward'.
              Inr \<lparr>loanAsset = loanAsset',
                   collateralAsset = collateralAsset',
                   state = state',
                   uniqueKey = uniqueKey',
                   network_local = or_else (opt_get chain ''network'') (JStr ''Unknown''),
                   reward = reward'\<rparr>)))))"

text \<open>\<^verbatim>\<open>(Number(raw) / Math.pow(10, decimals)) * loanAssetPrice\<close>\<close>

definition in_usd :: "env \<Rightarrow> jsval \<Rightarrow> jsval \<Rightarrow> double \<Rightarrow> exn + double" where
  "in_usd rt raw decimals loanAssetPrice =
     and_then (Number rt raw) (\<lambda>amount.
     and_then (Number rt decimals) (\<lambda>d.
       Inr (FMul (FDiv amount (FPow (FVal 10) d)) loanAssetPrice)))"

definition marketName :: "env \<Rightarrow> jsval \<Rightarrow> jsval \<Rightarrow> exn + string" where
  "marketName rt collateralAsset' loanAsset' =
     (if truthy collateralAsset'
      then and_then (ToString rt (prop_of collateralAsset' ''symbol'')) (\<lambda>c.
           and_then (ToString rt (prop_of loanAsset' ''symbol'')) (\<lambda>l.
             Inr (c @ ''/'' @ l @ '' Market'')))
      else and_then (ToString rt (prop_of loanAsset' ''symbol'')) (\<lambda>l.
             Inr (l @ '' Market'')))"

text \<open>
  The statements of \<^verbatim>\<open>transformMarketData\<close> after the contract call, given
  the rate that \<^verbatim>\<open>??\<close> left. The reads of \<^verbatim>\<open>loanAsset\<close> and \<^verbatim>\<open>state\<close> cannot
  throw here: \<open>transform_begin\<close> has read a property of each.
\<close>

definition transform_finish :: "env \<Rightarrow> locals \<Rightarrow> string \<Rightarrow> exn + MarketOutputForCalculator" where
  "transform_finish rt l rate =
     and_then (Number rt (prop_of (loanAsset l) ''priceUsd'')) (\<lambda>loanAssetPrice.
     and_then (in_usd rt (prop_of (state l) ''supplyAssets'') (prop_of (loanAsset l) ''decimals'')
                 loanAssetPrice) (\<lambda>supplyAssetsInUsd.
     and_then (in_usd rt (prop_of (state l) ''borrowAssets'') (prop_of (loanAsset l) ''decimals'')
                 loanAssetPrice) (\<lambda>borrowAssetsInUsd.
     and_then (marketName rt (collateralAsset l) (loanAsset l)) (\<lambda>marketName'.
     and_then (ToString rt (network_local l)) (\<lambda>network_text.
     and_then (if truthy (reward l) then ToString rt (prop_of (reward l) ''yearlySupplyTokens'')
               else Inr ''0'') (\<lambda>yearly.
     and_then (if truthy (reward l) then get (prop_of (reward l) ''asset'') ''decimals''
               else Inr (JNum 18)) (\<lambda>decimals.
     and_then (if truthy (reward l)
               then and_then (get (prop_of (reward l) ''asset'') ''priceUsd'') (ToString rt)
               else Inr ''0'') (\<lambda>price.
       Inr \<lparr>id' = uniqueKey l,
            name = marketName',
            network = network_local l,
            protocol = ''Morpho'',
            source = ''Morpho '' @ network_text,
            token_price = loanAssetPrice,
            total_supplied = supplyAssetsInUsd,
            total_borrowed = borrowAssetsInUsd,
            fee_percentage = prop_of (state l) ''fee'',
            optimal_usage_ratio = FVal (9 / 10),
            reserve_factor = FVal 0,
            yearlySupplyTokens = yearly,
            rewardTokenDecimals = decimals,
            rewardTokenPriceUsd = price,
            rate_per_second = rate\<rparr>))))))))"

text \<open>\<^verbatim>\<open>await getBorrowRateFromContract(market) ?? "0"\<close>\<close>

definition rate_or_0 :: "string option \<Rightarrow> string" where
  "rate_or_0 r = (case r of None \<Rightarrow> ''0'' | Some rate \<Rightarrow> rate)"

definition transformMarketData ::
    "env \<Rightarrow> jsval \<Rightarrow> world \<Rightarrow> (exn + MarketOutputForCalculator) \<times> world" where
  "transformMarketData rt market w =
     (case transform_begin rt market of
        Inl e \<Rightarrow> (Inl e, w)
      | Inr l \<Rightarrow>
          (case getBorrowRateFromContract rt market w of
             (Inl e, w') \<Rightarrow> (Inl e, w')
           | (Inr r, w') \<Rightarrow> (transform_finish rt l (rate_or_0 r), w')))"


section \<open>The HTTP endpoint\<close>

text \<open>
  A parameter of \<^verbatim>\<open>req.query\<close>: absent, a string, or anything else the query
  parser builds (an array or a nested object).
\<close>

datatype qparam =
    QAbsent
  | QStr string
  | QOther

record query =
  loanAssetAddress_param :: qparam
  first_param :: qparam
  orderBy_param :: qparam

text \<open>\<^verbatim>\<open>x && typeof x === 'string'\<close>, with the string when the test holds.\<close>

fun nonempty_string :: "qparam \<Rightarrow> string option" where
  "nonempty_string (QStr s) = (if s \<noteq> [] then Some s else None)"
| "nonempty_string _ = None"

text \<open>
  \<^verbatim>\<open>parseInt(s)\<close> with no radix: leading white space is skipped, a sign is
  read, \<^verbatim>\<open>0x\<close> selects radix 16, and the longest run of digits is the value;
  \<open>None\<close> is \<^verbatim>\<open>NaN\<close>. The result stands for the double nearest to it.
\<close>

definition is_space :: "char \<Rightarrow> bool" where
  "is_space c = (c \<in> set [CHR 0x20, CHR 0x09, CHR 0x0A, CHR 0x0B, CHR 0x0C, CHR 0x0D])"

definition digit_val :: "char \<Rightarrow> nat" where
  "digit_val c =
     (let n = (of_char c :: nat) in
      if 48 \<le> n \<and> n \<le> 57 then n - 48
      else if 97 \<le> n \<and> n \<le> 122 then n - 87
      else if 65 \<le> n \<and> n \<le> 90 then n - 55
      else 36)"

definition parseInt :: "string \<Rightarrow> int option" where
  "parseInt inputString =
     (let S = dropWhile is_space inputString;
          sign = (case S of [] \<Rightarrow> 1 | c # r \<Rightarrow> if c = CHR ''-'' then - 1 else (1 :: int));
          S1 = (case S of [] \<Rightarrow> S | c # r \<Rightarrow> if c = CHR ''+'' \<or> c = CHR ''-'' then r else S);
          hex = (take 2 S1 = ''0x'' \<or> take 2 S1 = ''0X'');
          S2 = (if hex then drop 2 S1 else S1);
          R = (if hex then 16 else 10);
          Z = takeWhile (\<lambda>c. digit_val c < R) S2
      in if Z = [] then None
         else Some (sign * foldl (\<lambda>a c. a * int R + int (digit_val c)) 0 Z))"

text \<open>What \<^verbatim>\<open>res.json\<close> is given.\<close>

datatype json_body =
    ErrorOnly string
  | ErrorDetails string jsval
  | Markets "MarketOutputForCalculator list"

record http_response =
  status_code :: nat
  body :: json_body

text \<open>The query parameters as fetch variables; \<open>None\<close> is the 400 branch.\<close>

definition variables_of :: "query \<Rightarrow> FetchMarketsVariables option" where
  "variables_of q =
     (case nonempty_string (loanAssetAddress_param q) of
        None \<Rightarrow> None
      | Some loanAssetAddress \<Rightarrow>
          Some \<lparr>where_filter = Some \<lparr>loanAssetAddress_in = Some loanAssetAddress,
                                     whitelisted = Some True\<rparr>,
                first = (case nonempty_string (first_param q) of
                           Some s \<Rightarrow>
                             (case parseInt s of
                                None \<Rightarrow> None
                              | Some firstNum \<Rightarrow> if 0 < firstNum then Some (of_int firstNum) else None)
                         | None \<Rightarrow> Some 10),
                orderBy = nonempty_string (orderBy_param q)\<rparr>)"

text \<open>The \<^verbatim>\<open>catch\<close> clause of the route.\<close>

definition error_details :: "exn \<Rightarrow> jsval" where
  "error_details error =
     (if has_details error
      then (case error of Thrown t \<Rightarrow> (case details t of Some v \<Rightarrow> v | None \<Rightarrow> JUndefined)
                        | Native m \<Rightarrow> JUndefined)
      else if has_rawResponse error
      then (case error of Thrown t \<Rightarrow> (case rawResponse t of Some s \<Rightarrow> JObj [(''rawResponse'', JStr s)]
                                                                | None \<Rightarrow> JUndefined)
                        | Native m \<Rightarrow> JUndefined)
      else if err_message error \<noteq> [] then JNull
      else exn_value error)"

definition error_response :: "exn \<Rightarrow> http_response" where
  "error_response error =
     \<lparr>status_code = status_or_500 error,
      body = ErrorDetails (if err_message error \<noteq> [] then err_message error
                           else ''An internal server error occurred'')
                          (error_details error)\<rparr>"

text \<open>
  \<^verbatim>\<open>fetchedMarkets.map(market => transformMarketData(market))\<close>: every call
  runs up to its \<^verbatim>\<open>await\<close> before the next one starts, so the contract calls
  are issued in the order of the items. With each result goes the moment at
  which the promise settles: \<open>(0, 0)\<close> when the statements before the
  \<^verbatim>\<open>await\<close> throw, \<open>(1, 0)\<close> when no contract call was issued, and
  \<open>(2, t)\<close> when the contract call, the \<open>n\<close>-th outbound call, settles at
  \<open>t = settle_time rt n\<close>.
\<close>

definition settles :: "env \<Rightarrow> jsval \<Rightarrow> world \<Rightarrow> nat \<times> nat" where
  "settles rt market w =
     (case transform_begin rt market of
        Inl e \<Rightarrow> (0, 0)
      | Inr l \<Rightarrow>
          (if calls (snd (getBorrowRateFromContract rt market w)) = calls w then (1, 0)
           else (2, settle_time rt (length (calls w)))))"

fun transform_each ::
    "env \<Rightarrow> jsval list \<Rightarrow> world \<Rightarrow> ((exn + MarketOutputForCalculator) \<times> (nat \<times> nat)) list \<times> world" where
  "transform_each rt [] w = ([], w)"
| "transform_each rt (market # markets) w =
     (case transformMarketData rt market w of
        (r, w') \<Rightarrow>
          (case transform_each rt markets w' of
             (rs, w'') \<Rightarrow> ((r, settles rt market w) # rs, w'')))"

text \<open>
  \<^verbatim>\<open>Promise.all\<close>: the array of the results in the order of the promises, or
  the reason of the promise that rejects first; promises that reject at the
  same moment do so in the order of the array.
\<close>

fun rejections ::
    "nat \<Rightarrow> ((exn + 'a) \<times> (nat \<times> nat)) list \<Rightarrow> (((nat \<times> nat) \<times> nat) \<times> exn) list" where
  "rejections i [] = []"
| "rejections i ((Inl e, t) # rs) = ((t, i), e) # rejections (Suc i) rs"
| "rejections i ((Inr v, t) # rs) = rejections (Suc i) rs"

fun fulfilled :: "((exn + 'a) \<times> (nat \<times> nat)) list \<Rightarrow> 'a list" where
  "fulfilled [] = []"
| "fulfilled ((Inl e, t) # rs) = fulfilled rs"
| "fulfilled ((Inr v, t) # rs) = v # fulfilled rs"

fun earliest ::
    "(((nat \<times> nat) \<times> nat) \<times> exn) \<Rightarrow> (((nat \<times> nat) \<times> nat) \<times> exn) list \<Rightarrow> exn" where
  "earliest best [] = snd best"
| "earliest best (x # xs) = earliest (if fst x < fst best then x else best) xs"

definition Promise_all :: "((exn + 'a) \<times> (nat \<times> nat)) list \<Rightarrow> exn + 'a list" where
  "Promise_all promises =
     (case rejections 0 promises of
        [] \<Rightarrow> Inr (fulfilled promises)
      | x # xs \<Rightarrow> Inl (earliest x xs))"

text \<open>The handler of \<^verbatim>\<open>GET /markets\<close>.\<close>

definition markets_handler :: "env \<Rightarrow> query \<Rightarrow> world \<Rightarrow> http_response \<times> world" where
  "markets_handler rt q w =
     (case variables_of q of
        None \<Rightarrow>
          (\<lparr>status_code = 400,
            body = ErrorOnly ''Missing or invalid required query parameter: loanAssetAddress''\<rparr>, w)
      | Some variables \<Rightarrow>
          (case fetchMorphoMarketsAPI rt variables w of
             (Inl error, w1) \<Rightarrow> (error_response error, w1)
           | (Inr fetchedMarkets, w1) \<Rightarrow>
               (case fetchedMarkets of
                  JArr markets \<Rightarrow>
                    (case transform_each rt markets w1 of
                       (promises, w2) \<Rightarrow>
                         (case Promise_all promises of
                            Inl error \<Rightarrow> (error_response error, w2)
                          | Inr transformedData \<Rightarrow>
                              (\<lparr>status_code = 200, body = Markets transformedData\<rparr>, w2)))
                | _ \<Rightarrow> (error_response (Native ''fetchedMarkets.map is not a function''), w1))))"


section \<open>Notions used to state the properties\<close>

fun is_graphql :: "event \<Rightarrow> bool" where
  "is_graphql (GraphQLRequest v) = True"
| "is_graphql (ChainCall p s) = False"

text \<open>The arguments of the contract call for a market, when both can be built.\<close>

definition call_args :: "env \<Rightarrow> jsval \<Rightarrow> (MarketParams \<times> MarketStruct) option" where
  "call_args rt market =
     (case and_then (buildMarketParams rt market) (\<lambda>marketParams.
           and_then (buildMarketStruct rt market) (\<lambda>marketStruct.
             Inr (marketParams, marketStruct))) of
        Inl e \<Rightarrow> None
      | Inr args \<Rightarrow> Some args)"

text \<open>
  The rate of a market whose contract call would be the \<open>n\<close>-th outbound call:
  the decimal digits of what the call returns, and \<^verbatim>\<open>"0"\<close> when the call
  throws or cannot be issued.
\<close>

definition own_rate :: "env \<Rightarrow> jsval \<Rightarrow> nat \<Rightarrow> string" where
  "own_rate rt market n =
     (case call_args rt market of
        None \<Rightarrow> ''0''
      | Some (p, s) \<Rightarrow> (case borrowRateView rt n p s of None \<Rightarrow> ''0'' | Some rate \<Rightarrow> show_nat rate))"

definition calls_issued :: "env \<Rightarrow> jsval list \<Rightarrow> nat" where
  "calls_issued rt markets = length (filter (\<lambda>m. call_args rt m \<noteq> None) markets)"

text \<open>
  The statements of \<^verbatim>\<open>transformMarketData\<close> around the contract call do not
  throw on this market. The rate is only stored, so any rate decides it.
\<close>

definition transformable :: "env \<Rightarrow> jsval \<Rightarrow> bool" where
  "transformable rt market =
     (case transform_begin rt market of
        Inl e \<Rightarrow> False
      | Inr l \<Rightarrow> (case transform_finish rt l ''0'' of Inl e \<Rightarrow> False | Inr out \<Rightarrow> True))"

text \<open>
  The interface \<^verbatim>\<open>FetchedMorphoMarket\<close> of \<^verbatim>\<open>morphoMarkets.ts\<close> as a predicate on
  JSON values: the declared properties are present with the declared types.
  \<^verbatim>\<open>rewards\<close> is optional, the collateral asset may be \<^verbatim>\<open>null\<close> (the code tests
  for it), and its \<^verbatim>\<open>symbol\<close>, which the interface does not declare but the
  transformer reads, is absent or a string.
\<close>

fun is_str :: "jsval \<Rightarrow> bool" where
  "is_str (JStr s) = True"
| "is_str _ = False"

fun is_num :: "jsval \<Rightarrow> bool" where
  "is_num (JNum r) = True"
| "is_num _ = False"

definition typed_reward :: "jsval \<Rightarrow> bool" where
  "typed_reward r =
     (case r of
        JObj kv \<Rightarrow>
          is_str (own kv ''yearlySupplyTokens'')
          \<and> (case own kv ''asset'' of
                JObj a \<Rightarrow> is_num (own a ''decimals'') \<and> is_str (own a ''priceUsd'')
              | _ \<Rightarrow> False)
      | _ \<Rightarrow> False)"

definition typed_loanAsset :: "jsval \<Rightarrow> bool" where
  "typed_loanAsset v =
     (case v of
        JObj la \<Rightarrow>
          is_str (own la ''address'') \<and> is_num (own la ''decimals'') \<and> is_str (own la ''symbol'')
          \<and> is_str (own la ''priceUsd'')
          \<and> (case own la ''chain'' of JObj ch \<Rightarrow> is_str (own ch ''network'') | _ \<Rightarrow> False)
      | _ \<Rightarrow> False)"

definition typed_collateralAsset :: "jsval \<Rightarrow> bool" where
  "typed_collateralAsset v =
     (case v of
        JObj c \<Rightarrow> is_str (own c ''address'')
                  \<and> (own c ''symbol'' = JUndefined \<or> is_str (own c ''symbol''))
      | JNull \<Rightarrow> True
      | JUndefined \<Rightarrow> True
      | _ \<Rightarrow> False)"

definition typed_state :: "jsval \<Rightarrow> bool" where
  "typed_state v =
     (case v of
        JObj st \<Rightarrow>
          is_str (own st ''price'') \<and> is_num (own st ''fee'')
          \<and> is_str (own st ''supplyAssets'') \<and> is_str (own st ''borrowAssets'')
          \<and> is_str (own st ''supplyShares'') \<and> is_str (own st ''borrowShares'')
          \<and> is_num (own st ''timestamp'')
          \<and> (case own st ''rewards'' of
                JArr rs \<Rightarrow> list_all typed_reward rs
              | JUndefined \<Rightarrow> True
              | JNull \<Rightarrow> True
              | _ \<Rightarrow> False)
      | _ \<Rightarrow> False)"

definition typed_market :: "jsval \<Rightarrow> bool" where
  "typed_market m =
     (case m of
        JObj kv \<Rightarrow>
          typed_loanAsset (own kv ''loanAsset'') \<and> is_str (own kv ''uniqueKey'')
          \<and> typed_collateralAsset (own kv ''collateralAsset'')
          \<and> is_str (own kv ''oracleAddress'') \<and> is_str (own kv ''irmAddress'')
          \<and> is_str (own kv ''lltv'') \<and> typed_state (own kv ''state'')
      | _ \<Rightarrow> False)"

section \<open>Example inputs\<close>

text \<open>
  Bodies that the GraphQL endpoint may send, and the values of \<^verbatim>\<open>JSON.parse\<close>,
  \<^verbatim>\<open>Number\<close> and \<^verbatim>\<open>Number.prototype.toString\<close> on the strings and numbers
  that occur in the examples of this theory; no example uses them elsewhere.
\<close>

definition errors_body :: string where
  \<open>errors_body = ''{"errors":[]}''\<close>

definition no_items_body :: string where
  \<open>no_items_body = ''{"data":{}}''\<close>

definition empty_items_body :: string where
  \<open>empty_items_body = ''{"data":{"markets":{"items":[]}}}''\<close>

text \<open>A USDC market as the query of \<^verbatim>\<open>morphoMarkets.ts\<close> selects it.\<close>

definition usdc_market_text :: "string \<Rightarrow> string" where
  \<open>usdc_market_text k =
     ''{"loanAsset":{"address":"0xA0b8","decimals":6,"symbol":"USDC","priceUsd":"1.00",''
     @ ''"chain":{"network":"ethereum"}},"uniqueKey":"'' @ k @ ''",''
     @ ''"state":{"price":"1","fee":0,"supplyAssets":"1000000","borrowAssets":"500000",''
     @ ''"supplyShares":"900000","borrowShares":"400000","timestamp":1700000000,"rewards":[]},''
     @ ''"collateralAsset":{"address":"0xC02a"},"irmAddress":"0x870a",''
     @ ''"lltv":"860000000000000000","oracleAddress":"0x0A6F"}''\<close>

definition three_markets_body :: string where
  \<open>three_markets_body =
     ''{"data":{"markets":{"items":['' @ usdc_market_text ''m1'' @ '','' @ usdc_market_text ''m2''
     @ '','' @ usdc_market_text ''m3'' @ '']}}}''\<close>

definition usdc_market :: "string \<Rightarrow> jsval \<Rightarrow> jsval" where
  "usdc_market k collateral =
     JObj [(''loanAsset'', JObj [(''address'', JStr ''0xA0b8''), (''decimals'', JNum 6),
                                 (''symbol'', JStr ''USDC''), (''priceUsd'', JStr ''1.00''),
                                 (''chain'', JObj [(''network'', JStr ''ethereum'')])]),
           (''uniqueKey'', JStr k),
           (''state'', JObj [(''price'', JStr ''1''), (''fee'', JNum 0),
                             (''supplyAssets'', JStr ''1000000''), (''borrowAssets'', JStr ''500000''),
                             (''supplyShares'', JStr ''900000''), (''borrowShares'', JStr ''400000''),
                             (''timestamp'', JNum 1700000000), (''rewards'', JArr [])]),
           (''collateralAsset'', collateral),
           (''irmAddress'', JStr ''0x870a''),
           (''lltv'', JStr ''860000000000000000''),
           (''oracleAddress'', JStr ''0x0A6F'')]"

definition weth_address_only :: jsval where
  "weth_address_only = JObj [(''address'', JStr ''0xC02a'')]"

definition weth_with_symbol :: jsval where
  "weth_with_symbol = JObj [(''address'', JStr ''0xC02a''), (''symbol'', JStr ''WETH'')]"

definition three_markets :: "jsval list" where
  "three_markets = [usdc_market ''m1'' weth_address_only, usdc_market ''m2'' weth_address_only,
                    usdc_market ''m3'' weth_address_only]"

definition items_payload :: "jsval list \<Rightarrow> jsval" where
  "items_payload ms = JObj [(''data'', JObj [(''markets'', JObj [(''items'', JArr ms)])])]"

definition examples_parse :: "string \<Rightarrow> string + jsval" where
  "examples_parse s =
     (if s = three_markets_body then Inr (items_payload three_markets)
      else if s = empty_items_body then Inr (items_payload [])
      else if s = errors_body then Inr (JObj [(''errors'', JArr [])])
      else if s = no_items_body then Inr (JObj [(''data'', JObj [])])
      else if s = ''0'' then Inr (JNum 0)
      else Inl ''Unexpected token'')"

definition examples_number :: "string \<Rightarrow> rat option" where
  "examples_number s =
     (if s = ''1.00'' then Some 1
      else if s \<noteq> [] \<and> list_all (\<lambda>c. digit_val c < 10) s then map_option of_int (parseInt s)
      else None)"

definition node :: env where
  "node = \<lparr>JSON_parse = examples_parse,
           NumberToString = (\<lambda>r. show_nat (nat \<lfloor>r\<rfloor>)),
           StringToNumber = examples_number,
           fetch_graphql = (\<lambda>v. Failed ''fetch failed''),
           writeFileSync = (\<lambda>s. True),
           borrowRateView = (\<lambda>n p s. None),
           settle_time = (\<lambda>n. n)\<rparr>"

definition idle :: world where
  "idle = \<lparr>calls = [], raw_file = None\<rparr>"

definition usdc_query :: "qparam \<Rightarrow> query" where
  "usdc_query f =
     \<lparr>loanAssetAddress_param = QStr ''0xA0b8'', first_param = f, orderBy_param = QAbsent\<rparr>"

definition usdc_variables :: FetchMarketsVariables where
  "usdc_variables =
     \<lparr>where_filter = Some \<lparr>loanAssetAddress_in = Some ''0xA0b8'', whitelisted = Some True\<rparr>,
      first = Some 10,
      orderBy = None\<rparr>"

text \<open>The endpoint replies with this status and this body.\<close>

definition replying :: "nat \<Rightarrow> string \<Rightarrow> env" where
  "replying st text = node\<lparr>fetch_graphql := (\<lambda>v. Response st text)\<rparr>"

text \<open>
  Three markets arrive; the contract call of the second one, the outbound call
  number 2 after the GraphQL request, throws, and the others return a rate.
\<close>

definition second_call_fails :: env where
  "second_call_fails =
     (replying 200 three_markets_body)
       \<lparr>borrowRateView := (\<lambda>n p s. if n = 2 then None else Some 31709791983)\<rparr>"

definition usdc_params :: MarketParams where
  "usdc_params = \<lparr>loanToken = JStr ''0xA0b8'', collateralToken = JStr ''0xC02a'',
                   oracle = JStr ''0x0A6F'', irm = JStr ''0x870a'', lltv = ''860000000000000000''\<rparr>"

definition usdc_struct :: MarketStruct where
  "usdc_struct = \<lparr>totalSupplyAssets = ''1000000'', totalSupplyShares = ''900000'',
                   totalBorrowAssets = ''500000'', totalBorrowShares = ''400000'',
                   lastUpdate = ''1700000000'', fee = ''0''\<rparr>"

definition usdc_output :: "string \<Rightarrow> string \<Rightarrow> string \<Rightarrow> MarketOutputForCalculator" where
  "usdc_output k market_name rate =
     \<lparr>id' = JStr k,
      name = market_name,
      network = JStr ''ethereum'',
      protocol = ''Morpho'',
      source = ''Morpho ethereum'',
      token_price = FVal 1,
      total_supplied = FMul (FDiv (FVal 1000000) (FPow (FVal 10) (FVal 6))) (FVal 1),
      total_borrowed = FMul (FDiv (FVal 500000) (FPow (FVal 10) (FVal 6))) (FVal 1),
      fee_percentage = JNum 0,
      optimal_usage_ratio = FVal (9 / 10),
      reserve_factor = FVal 0,
      yearlySupplyTokens = ''0'',
      rewardTokenDecimals = JNum 18,
      rewardTokenPriceUsd = ''0'',
      rate_per_second = rate\<rparr>"

section \<open>Properties\<close>

subsection \<open>Auxiliary facts\<close>

lemma handleGraphQLError_raw:
  "handleGraphQLError rt st text =
     Inl (Thrown \<lparr>message = ''HTTP error! status: '' @ show_nat st @ ''. Response not JSON: '' @ text,
                  status = st, details = None, rawResponse = Some text\<rparr>)"
  by (simp add: handleGraphQLError_def try_catch_def split: sum.splits)

lemma show_nat_500: "show_nat 500 = ''500''"
  by (simp add: show_nat.simps digit_def)

lemma errors_body_nonempty: "errors_body \<noteq> []"
  by (simp add: errors_body_def)

lemma variables_usdc: "variables_of (usdc_query QAbsent) = Some usdc_variables"
  by (simp add: variables_of_def usdc_query_def usdc_variables_def)

lemma read_response_write [simp]:
  "read_response (rt\<lparr>writeFileSync := f\<rparr>) st text = read_response rt st text"
  by (simp add: read_response_def handleGraphQLError_raw)

lemma fetch_calls: "calls (snd (fetchMorphoMarketsAPI rt v w)) = calls w @ [GraphQLRequest v]"
  by (simp add: fetchMorphoMarketsAPI_def saveRawResponse_def Let_def split: transport.splits)

lemma getBorrowRate_calls:
  "\<exists>rest. calls (snd (getBorrowRateFromContract rt m w)) = calls w @ rest \<and> filter is_graphql rest = []"
  by (auto simp: getBorrowRateFromContract_def Let_def split: sum.splits option.splits prod.splits)

lemma transformMarketData_calls:
  "\<exists>rest. calls (snd (transformMarketData rt m w)) = calls w @ rest \<and> filter is_graphql rest = []"
proof (cases "transform_begin rt m")
  case (Inl e)
  then show ?thesis by (simp add: transformMarketData_def)
next
  case (Inr l)
  obtain rest where "calls (snd (getBorrowRateFromContract rt m w)) = calls w @ rest"
    and "filter is_graphql rest = []"
    using getBorrowRate_calls by blast
  with Inr show ?thesis
    by (auto simp: transformMarketData_def split: prod.splits sum.splits)
qed

lemma transform_each_calls:
  "\<exists>rest. calls (snd (transform_each rt ms w)) = calls w @ rest \<and> filter is_graphql rest = []"
proof (induction ms arbitrary: w)
  case Nil
  show ?case by simp
next
  case (Cons m ms)
  obtain r w' where step: "transformMarketData rt m w = (r, w')" by (cases "transformMarketData rt m w")
  obtain rest1 where r1: "calls w' = calls w @ rest1" "filter is_graphql rest1 = []"
    using transformMarketData_calls [of rt m w] step by auto
  obtain rest2 where r2: "calls (snd (transform_each rt ms w')) = calls w' @ rest2"
    "filter is_graphql rest2 = []"
    using Cons.IH [of w'] by blast
  have "calls (snd (transform_each rt (m # ms) w)) = calls w @ (rest1 @ rest2)"
    using step r1 r2 by (auto split: prod.splits)
  moreover have "filter is_graphql (rest1 @ rest2) = []" using r1 r2 by simp
  ultimately show ?case by blast
qed

lemma handler_calls:
  assumes "variables_of q = Some v"
  shows "\<exists>rest. calls (snd (markets_handler rt q w)) = calls w @ GraphQLRequest v # rest
                 \<and> filter is_graphql rest = []"
proof -
  obtain r w1 where f: "fetchMorphoMarketsAPI rt v w = (r, w1)"
    by (cases "fetchMorphoMarketsAPI rt v w")
  have c1: "calls w1 = calls w @ [GraphQLRequest v]" using fetch_calls [of rt v w] f by simp
  show ?thesis
  proof (cases "\<exists>ms. r = Inr (JArr ms)")
    case True
    then obtain ms where r: "r = Inr (JArr ms)" by blast
    obtain rest where t: "calls (snd (transform_each rt ms w1)) = calls w1 @ rest"
      "filter is_graphql rest = []"
      using transform_each_calls by blast
    have "calls (snd (markets_handler rt q w)) = calls (snd (transform_each rt ms w1))"
      using assms f r by (simp add: markets_handler_def split: prod.splits sum.splits)
    with t c1 show ?thesis by simp
  next
    case False
    then have "snd (markets_handler rt q w) = w1"
      using assms f by (auto simp: markets_handler_def split: prod.splits sum.splits jsval.splits)
    with c1 show ?thesis by simp
  qed
qed

lemma transformMarketData_Inr:
  assumes "transformMarketData rt m w = (Inr out, w')"
  shows "\<exists>l r. transform_begin rt m = Inr l \<and> getBorrowRateFromContract rt m w = (Inr r, w')
               \<and> transform_finish rt l (rate_or_0 r) = Inr out"
  using assms by (auto simp: transformMarketData_def split: sum.splits prod.splits)

lemma transform_begin_locals:
  assumes "transform_begin rt m = Inr l"
  shows "\<not> nullish m \<and> loanAsset l = prop_of m ''loanAsset''
       \<and> collateralAsset l = prop_of m ''collateralAsset''
       \<and> state l = prop_of m ''state'' \<and> uniqueKey l = prop_of m ''uniqueKey''
       \<and> network_local l = or_else (opt_get (prop_of (prop_of m ''loanAsset'') ''chain'') ''network'')
                              (JStr ''Unknown'')"
  using assms
  by (auto simp: transform_begin_def and_then_def get_def opt_get_def Let_def
           split: if_splits sum.splits)

lemma transform_finish_fields:
  assumes "transform_finish rt l rate = Inr out"
  shows "id' out = uniqueKey l \<and> protocol out = ''Morpho'' \<and> optimal_usage_ratio out = FVal (9 / 10)
       \<and> reserve_factor out = FVal 0 \<and> network out = network_local l
       \<and> rate_per_second out = rate
       \<and> marketName rt (collateralAsset l) (loanAsset l) = Inr (name out)
       \<and> (\<exists>n. ToString rt (network_local l) = Inr n \<and> source out = ''Morpho '' @ n)"
  using assms
  by (auto simp: transform_finish_def and_then_def split: sum.splits)

lemma getBorrowRate_result:
  assumes "\<not> nullish m"
  shows "fst (getBorrowRateFromContract rt m w) =
           Inr (case call_args rt m of
                  None \<Rightarrow> None
                | Some (p, s) \<Rightarrow> map_option show_nat (borrowRateView rt (length (calls w)) p s))
       \<and> calls (snd (getBorrowRateFromContract rt m w)) =
           calls w @ (case call_args rt m of None \<Rightarrow> [] | Some (p, s) \<Rightarrow> [ChainCall p s])"
  using assms
  by (auto simp: getBorrowRateFromContract_def call_args_def rate_failed_def get_def and_then_def
        Let_def split: sum.splits option.splits prod.splits)

lemma rate_or_0_own_rate:
  "rate_or_0 (case call_args rt m of
                None \<Rightarrow> None
              | Some (p, s) \<Rightarrow> map_option show_nat (borrowRateView rt n p s)) = own_rate rt m n"
  by (auto simp: rate_or_0_def own_rate_def split: option.splits)

lemma transform_finish_rate:
  assumes "transform_finish rt l r = Inr out"
  shows "transform_finish rt l r' = Inr (out\<lparr>rate_per_second := r'\<rparr>)"
  using assms
  by (auto simp: transform_finish_def and_then_def split: sum.splits)

lemma transformable_single:
  assumes "transformable rt m"
  shows "\<exists>l out w'. transform_begin rt m = Inr l
           \<and> transform_finish rt l (own_rate rt m (length (calls w))) = Inr out
           \<and> transformMarketData rt m w = (Inr out, w')
           \<and> length (calls w') = length (calls w) + calls_issued rt [m]"
proof -
  obtain l out0 where l: "transform_begin rt m = Inr l" and o: "transform_finish rt l ''0'' = Inr out0"
    using assms by (auto simp: transformable_def split: sum.splits)
  have nn: "\<not> nullish m" using transform_begin_locals [OF l] by simp
  obtain r w' where g: "getBorrowRateFromContract rt m w = (r, w')"
    by (cases "getBorrowRateFromContract rt m w")
  have r: "r = Inr (case call_args rt m of
                  None \<Rightarrow> None
                | Some (p, s) \<Rightarrow> map_option show_nat (borrowRateView rt (length (calls w)) p s))"
    and c: "calls w' = calls w @ (case call_args rt m of None \<Rightarrow> [] | Some (p, s) \<Rightarrow> [ChainCall p s])"
    using getBorrowRate_result [OF nn, of rt w] g by simp_all
  let ?rate = "own_rate rt m (length (calls w))"
  have f: "transform_finish rt l ?rate = Inr (out0\<lparr>rate_per_second := ?rate\<rparr>)"
    by (rule transform_finish_rate [OF o])
  have t: "transformMarketData rt m w = (Inr (out0\<lparr>rate_per_second := ?rate\<rparr>), w')"
    using l g r f by (simp add: transformMarketData_def rate_or_0_own_rate)
  have n: "length (calls w') = length (calls w) + calls_issued rt [m]"
    using c by (auto simp: calls_issued_def split: option.splits)
  from l f t n show ?thesis by blast
qed

lemma calls_issued_Cons: "calls_issued rt (m # ms) = calls_issued rt [m] + calls_issued rt ms"
  by (simp add: calls_issued_def)

lemma transform_each_transformable:
  assumes "\<forall>m\<in>set ms. transformable rt m"
  shows "\<exists>rs w'. transform_each rt ms w = (rs, w') \<and> rejections k rs = []
           \<and> length (fulfilled rs) = length ms
           \<and> (\<forall>i<length ms. \<exists>l. transform_begin rt (ms ! i) = Inr l
                 \<and> transform_finish rt l
                      (own_rate rt (ms ! i) (length (calls w) + calls_issued rt (take i ms)))
                    = Inr (fulfilled rs ! i))"
  using assms
proof (induction ms arbitrary: w k)
  case Nil
  show ?case by simp
next
  case (Cons m ms)
  from Cons.prems have tm: "transformable rt m" and rest: "\<forall>m\<in>set ms. transformable rt m"
    by simp_all
  obtain l out w1 where l: "transform_begin rt m = Inr l"
    and f: "transform_finish rt l (own_rate rt m (length (calls w))) = Inr out"
    and t: "transformMarketData rt m w = (Inr out, w1)"
    and n: "length (calls w1) = length (calls w) + calls_issued rt [m]"
    using transformable_single [OF tm, of w] by blast
  obtain rs w2 where e: "transform_each rt ms w1 = (rs, w2)"
    and rj: "rejections (Suc k) rs = []"
    and len: "length (fulfilled rs) = length ms"
    and each: "\<forall>i<length ms. \<exists>l. transform_begin rt (ms ! i) = Inr l
                 \<and> transform_finish rt l
                      (own_rate rt (ms ! i) (length (calls w1) + calls_issued rt (take i ms)))
                    = Inr (fulfilled rs ! i)"
    using Cons.IH [OF rest, of w1 "Suc k"] by blast
  let ?rs = "(Inr out, settles rt m w) # rs"
  have a: "transform_each rt (m # ms) w = (?rs, w2)" using t e by simp
  have b: "rejections k ?rs = []" using rj by simp
  have c: "length (fulfilled ?rs) = length (m # ms)" using len by simp
  have d: "\<exists>l. transform_begin rt ((m # ms) ! i) = Inr l
                 \<and> transform_finish rt l
                      (own_rate rt ((m # ms) ! i) (length (calls w) + calls_issued rt (take i (m # ms))))
                    = Inr (fulfilled ?rs ! i)" if "i < length (m # ms)" for i
  proof (cases i)
    case 0
    with l f show ?thesis by (simp add: calls_issued_def)
  next
    case (Suc j)
    with that have j: "j < length ms" by simp
    have "length (calls w) + calls_issued rt (take i (m # ms))
            = length (calls w1) + calls_issued rt (take j ms)"
      using Suc n calls_issued_Cons [of rt m "take j ms"] by simp
    with each j Suc show ?thesis by simp
  qed
  from a b c d show ?case by blast
qed

lemma node_fields:
  "NumberToString node = (\<lambda>r. show_nat (nat \<lfloor>r\<rfloor>))"
  "StringToNumber node = examples_number"
  "JSON_parse node = examples_parse"
  "borrowRateView node = (\<lambda>n p s. None)"
  "writeFileSync node = (\<lambda>s. True)"
  by (simp_all add: node_def)

lemma second_call_fails_fields:
  "NumberToString second_call_fails = (\<lambda>r. show_nat (nat \<lfloor>r\<rfloor>))"
  "StringToNumber second_call_fails = examples_number"
  "JSON_parse second_call_fails = examples_parse"
  "borrowRateView second_call_fails = (\<lambda>n p s. if n = 2 then None else Some 31709791983)"
  "writeFileSync second_call_fails = (\<lambda>s. True)"
  "fetch_graphql second_call_fails = (\<lambda>v. Response 200 three_markets_body)"
  by (simp_all add: second_call_fails_def replying_def node_def)

lemma examples_number_values:
  "examples_number ''1.00'' = Some 1"
  "examples_number ''1000000'' = Some 1000000"
  "examples_number ''500000'' = Some 500000"
  by (simp_all add: examples_number_def parseInt_def is_space_def digit_val_def)

lemma show_timestamp: "show_nat 1700000000 = ''1700000000''"
  by (simp add: show_nat.simps digit_def)

lemma show_zero: "show_nat 0 = ''0''"
  by (simp add: show_nat.simps digit_def)

lemma show_rate: "show_nat 31709791983 = ''31709791983''"
  by (simp add: show_nat.simps digit_def)

lemma usdc_begin:
  "transform_begin rt (usdc_market k c) =
     Inr \<lparr>loanAsset = prop_of (usdc_market k c) ''loanAsset'', collateralAsset = c,
          state = prop_of (usdc_market k c) ''state'', uniqueKey = JStr k,
          network_local = JStr ''ethereum'', reward = JNull\<rparr>"
  by (simp add: transform_begin_def usdc_market_def own_def and_then_def get_def opt_get_def
        or_else_def first_reward_def gt0_def Let_def)

lemma usdc_finish:
  assumes "StringToNumber rt = examples_number"
    and "marketName rt c (prop_of (usdc_market k c) ''loanAsset'') = Inr n"
  shows "transform_finish rt
           \<lparr>loanAsset = prop_of (usdc_market k c) ''loanAsset'', collateralAsset = c,
            state = prop_of (usdc_market k c) ''state'', uniqueKey = JStr k,
            network_local = JStr ''ethereum'', reward = JNull\<rparr> rate
         = Inr (usdc_output k n rate)"
  using assms
  by (simp add: transform_finish_def usdc_market_def own_def and_then_def in_usd_def str_num_def
        examples_number_values usdc_output_def)

lemma usdc_call_args:
  assumes "NumberToString rt = (\<lambda>r. show_nat (nat \<lfloor>r\<rfloor>))"
  shows "call_args rt (usdc_market k weth_address_only) = Some (usdc_params, usdc_struct)"
    and "call_args rt (usdc_market k weth_with_symbol) = Some (usdc_params, usdc_struct)"
    and "call_args rt (usdc_market k JNull)
           = Some (usdc_params\<lparr>collateralToken := JStr zero_address\<rparr>, usdc_struct)"
  using assms
  by (simp_all add: call_args_def buildMarketParams_def buildMarketStruct_def state_string_def
        usdc_market_def weth_address_only_def weth_with_symbol_def own_def and_then_def get_def
        opt_get_def or_else_def call_toString_def usdc_params_def usdc_struct_def
        show_timestamp show_zero)

lemma usdc_names:
  "marketName rt weth_with_symbol (prop_of (usdc_market k weth_with_symbol) ''loanAsset'')
     = Inr ''WETH/USDC Market''"
  "marketName rt JNull (prop_of (usdc_market k JNull) ''loanAsset'') = Inr ''USDC Market''"
  "marketName rt weth_address_only (prop_of (usdc_market k weth_address_only) ''loanAsset'')
     = Inr ''undefined/USDC Market''"
  by (simp_all add: marketName_def usdc_market_def weth_address_only_def weth_with_symbol_def
        own_def and_then_def)

lemma parse_examples:
  "examples_parse three_markets_body = Inr (items_payload three_markets)"
  "examples_parse empty_items_body = Inr (items_payload [])"
  "examples_parse errors_body = Inr (JObj [(''errors'', JArr [])])"
  "examples_parse no_items_body = Inr (JObj [(''data'', JObj [])])"
  "examples_parse ''0'' = Inr (JNum 0)"
  by (simp_all add: examples_parse_def three_markets_body_def usdc_market_text_def
        empty_items_body_def errors_body_def no_items_body_def)

lemma usdc_transformable:
  assumes "StringToNumber rt = examples_number"
  shows "transformable rt (usdc_market k weth_address_only)"
  using assms
  by (simp add: transformable_def usdc_begin usdc_finish usdc_names)

lemma fetch_three_markets:
  "fetchMorphoMarketsAPI second_call_fails usdc_variables idle =
     (Inr (JArr three_markets),
      \<lparr>calls = [GraphQLRequest usdc_variables], raw_file = Some three_markets_body\<rparr>)"
  by (simp add: fetchMorphoMarketsAPI_def second_call_fails_fields saveRawResponse_def
        read_response_def ok_def parse_examples items_payload_def items_of_def get_def opt_get_def
        own_def try_catch_def idle_def Let_def)

lemma getBorrowRate_world:
  "snd (getBorrowRateFromContract rt m w) =
     w\<lparr>calls := calls w @ (case call_args rt m of None \<Rightarrow> [] | Some (p, s) \<Rightarrow> [ChainCall p s])\<rparr>"
  by (auto simp: getBorrowRateFromContract_def call_args_def Let_def
        split: sum.splits option.splits prod.splits)

lemma usdc_transformMarketData:
  assumes "StringToNumber rt = examples_number"
    and "call_args rt (usdc_market k c) = Some (p, s)"
    and "borrowRateView rt (length (calls w)) p s = None"
    and "marketName rt c (prop_of (usdc_market k c) ''loanAsset'') = Inr n"
  shows "transformMarketData rt (usdc_market k c) w =
           (Inr (usdc_output k n ''0''), w\<lparr>calls := calls w @ [ChainCall p s]\<rparr>)"
proof -
  let ?m = "usdc_market k c"
  have nn: "\<not> nullish ?m" by (simp add: usdc_market_def)
  obtain r w' where g: "getBorrowRateFromContract rt ?m w = (r, w')"
    by (cases "getBorrowRateFromContract rt ?m w")
  have r: "r = Inr None"
    using getBorrowRate_result [OF nn, of rt w] g assms(2,3) by simp
  have w': "w' = w\<lparr>calls := calls w @ [ChainCall p s]\<rparr>"
    using getBorrowRate_world [of rt ?m w] g assms(2) by simp
  show ?thesis
    using g r w' assms(1,4)
    by (simp add: transformMarketData_def usdc_begin usdc_finish rate_or_0_def)
qed

text \<open>
  Every market of the declared interface passes through the transformer without
  an exception, and a contract call is issued for it.
\<close>

lemma is_strE: "is_str v \<Longrightarrow> \<exists>s. v = JStr s" by (cases v) simp_all
lemma is_numE: "is_num v \<Longrightarrow> \<exists>r. v = JNum r" by (cases v) simp_all

lemma typed_first_reward:
  assumes "typed_state st"
  shows "\<exists>r. first_reward rt (prop_of st ''rewards'') = Inr r \<and> (r = JNull \<or> typed_reward r)"
proof -
  obtain kv where st: "st = JObj kv" using assms by (auto simp: typed_state_def split: jsval.splits)
  show ?thesis
  proof (cases "own kv ''rewards''")
    case (JArr rs)
    with assms st have all: "list_all typed_reward rs" by (simp add: typed_state_def)
    show ?thesis
    proof (cases rs)
      case Nil
      with JArr st show ?thesis by (simp add: first_reward_def gt0_def and_then_def)
    next
      case (Cons r rs')
      with all have "typed_reward r" by simp
      with JArr st Cons show ?thesis by (simp add: first_reward_def gt0_def and_then_def)
    qed
  next
    case JUndefined
    with st show ?thesis by (simp add: first_reward_def)
  next
    case JNull
    with st show ?thesis by (simp add: first_reward_def)
  qed (use assms st in \<open>simp_all add: typed_state_def\<close>)
qed

lemma typed_loanAsset_reads:
  assumes "typed_loanAsset la"
  shows "\<not> nullish la" 
    and "\<exists>s. prop_of la ''symbol'' = JStr s"
    and "\<exists>s. prop_of la ''priceUsd'' = JStr s"
    and "\<exists>r. prop_of la ''decimals'' = JNum r"
    and "\<exists>s. or_else (opt_get (prop_of la ''chain'') ''network'') (JStr ''Unknown'') = JStr s"
  using assms
  by (auto simp: typed_loanAsset_def or_else_def opt_get_def split: jsval.splits dest!: is_strE is_numE)

lemma typed_state_reads:
  assumes "typed_state st"
  shows "\<not> nullish st" 
    and "\<exists>s. prop_of st ''supplyAssets'' = JStr s"
    and "\<exists>s. prop_of st ''borrowAssets'' = JStr s"
  using assms
  by (auto simp: typed_state_def split: jsval.splits dest!: is_strE is_numE)

lemma typed_marketName:
  assumes "typed_collateralAsset c" and "prop_of la ''symbol'' = JStr s"
  shows "\<exists>n. marketName rt c la = Inr n"
  using assms
  by (auto simp: typed_collateralAsset_def marketName_def and_then_def split: jsval.splits dest!: is_strE)

lemma typed_reward_reads:
  assumes "typed_reward r"
  shows "truthy r" and "\<exists>s. prop_of r ''yearlySupplyTokens'' = JStr s"
    and "\<exists>d. get (prop_of r ''asset'') ''decimals'' = Inr d"
    and "\<exists>s. get (prop_of r ''asset'') ''priceUsd'' = Inr (JStr s)"
  using assms
  by (auto simp: typed_reward_def get_def split: jsval.splits dest!: is_strE is_numE)

lemma typed_market_transformable:
  assumes "typed_market m"
  shows "transformable rt m"
proof -
  obtain kv where m: "m = JObj kv" using assms by (auto simp: typed_market_def split: jsval.splits)
  let ?la = "prop_of m ''loanAsset''" and ?st = "prop_of m ''state''"
    and ?c = "prop_of m ''collateralAsset''"
  have la: "typed_loanAsset ?la" and st: "typed_state ?st" and c: "typed_collateralAsset ?c"
    using assms m by (simp_all add: typed_market_def)
  obtain r where r: "first_reward rt (prop_of ?st ''rewards'') = Inr r" "r = JNull \<or> typed_reward r"
    using typed_first_reward [OF st] by blast
  obtain net where net: "or_else (opt_get (prop_of ?la ''chain'') ''network'') (JStr ''Unknown'') = JStr net"
    using typed_loanAsset_reads(5) [OF la] by blast
  let ?l = "\<lparr>loanAsset = ?la, collateralAsset = ?c, state = ?st, uniqueKey = prop_of m ''uniqueKey'',
            network_local = JStr net, reward = r\<rparr>"
  have b: "transform_begin rt m = Inr ?l"
    using m r(1) net typed_loanAsset_reads(1) [OF la] typed_state_reads(1) [OF st]
    by (simp add: transform_begin_def get_def and_then_def Let_def)
  obtain sym where sym: "prop_of ?la ''symbol'' = JStr sym"
    using typed_loanAsset_reads(2) [OF la] by blast
  obtain pr where pr: "prop_of ?la ''priceUsd'' = JStr pr"
    using typed_loanAsset_reads(3) [OF la] by blast
  obtain dec where dec: "prop_of ?la ''decimals'' = JNum dec"
    using typed_loanAsset_reads(4) [OF la] by blast
  obtain sa where sa: "prop_of ?st ''supplyAssets'' = JStr sa"
    using typed_state_reads(2) [OF st] by blast
  obtain ba where ba: "prop_of ?st ''borrowAssets'' = JStr ba"
    using typed_state_reads(3) [OF st] by blast
  obtain n where n: "marketName rt ?c ?la = Inr n"
    using typed_marketName [OF c sym] by blast
  have "\<exists>out. transform_finish rt ?l ''0'' = Inr out"
  proof (cases "r = JNull")
    case True
    with pr dec sa ba n show ?thesis
      by (simp add: transform_finish_def and_then_def in_usd_def)
  next
    case False
    with r(2) have tr: "typed_reward r" by simp
    obtain y d p where "prop_of r ''yearlySupplyTokens'' = JStr y"
      "get (prop_of r ''asset'') ''decimals'' = Inr d"
      "get (prop_of r ''asset'') ''priceUsd'' = Inr (JStr p)"
      using typed_reward_reads(2,3,4) [OF tr] by blast
    with pr dec sa ba n typed_reward_reads(1) [OF tr] show ?thesis
      by (simp add: transform_finish_def and_then_def in_usd_def)
  qed
  with b show ?thesis by (auto simp: transformable_def)
qed


lemma typed_state_string:
  assumes "typed_state (prop_of m ''state'')" and "\<not> nullish m"
    and "k \<in> set [''supplyAssets'', ''supplyShares'', ''borrowAssets'', ''borrowShares'',
                    ''timestamp'', ''fee'']"
  shows "\<exists>s. state_string rt m k = Inr s"
  using assms
  by (auto simp: typed_state_def state_string_def and_then_def get_def call_toString_def
           split: jsval.splits dest!: is_strE is_numE)

lemma typed_market_call_args:
  assumes "typed_market m"
  shows "\<exists>p s. call_args rt m = Some (p, s)"
proof -
  obtain kv where m: "m = JObj kv" using assms by (auto simp: typed_market_def split: jsval.splits)
  have nn: "\<not> nullish m" using m by simp
  have st: "typed_state (prop_of m ''state'')" using assms m by (simp add: typed_market_def)
  have "\<exists>p. buildMarketParams rt m = Inr p"
    using assms m
    by (auto simp: typed_market_def typed_loanAsset_def buildMarketParams_def and_then_def get_def
          call_toString_def split: jsval.splits dest!: is_strE)
  moreover have "\<exists>s. buildMarketStruct rt m = Inr s"
    using typed_state_string [OF st nn, of "''supplyAssets''" rt]
      typed_state_string [OF st nn, of "''supplyShares''" rt]
      typed_state_string [OF st nn, of "''borrowAssets''" rt]
      typed_state_string [OF st nn, of "''borrowShares''" rt]
      typed_state_string [OF st nn, of "''timestamp''" rt]
      typed_state_string [OF st nn, of "''fee''" rt]
    by (auto simp: buildMarketStruct_def and_then_def)
  ultimately show ?thesis by (auto simp: call_args_def and_then_def)
qed

lemma usdc_market_typed:
  "typed_market (usdc_market k weth_address_only)"
  "typed_market (usdc_market k weth_with_symbol)"
  "typed_market (usdc_market k JNull)"
  by (simp_all add: typed_market_def typed_loanAsset_def typed_collateralAsset_def typed_state_def
        usdc_market_def weth_address_only_def weth_with_symbol_def own_def)

lemma typed_market_returns:
  assumes "typed_market m"
  shows "\<exists>out w'. transformMarketData rt m w = (Inr out, w')"
  using transformable_single [OF typed_market_transformable [OF assms, of rt], of w] by blast

text \<open>What an output of the transformer says about the market it came from.\<close>

lemma name_of_output:
  assumes "transformMarketData rt market w = (Inr out, w')"
    and "prop_of (prop_of market ''loanAsset'') ''symbol'' = JStr L"
  shows "(\<forall>c S. prop_of market ''collateralAsset'' = JObj c \<and> own c ''symbol'' = JStr S
            \<longrightarrow> name out = S @ ''/'' @ L @ '' Market'')
       \<and> (nullish (prop_of market ''collateralAsset'') \<longrightarrow> name out = L @ '' Market'')"
proof -
  obtain l r where l: "transform_begin rt market = Inr l"
    and f: "transform_finish rt l (rate_or_0 r) = Inr out"
    using transformMarketData_Inr [OF assms(1)] by blast
  have n: "marketName rt (prop_of market ''collateralAsset'') (prop_of market ''loanAsset'') = Inr (name out)"
    using transform_begin_locals [OF l] transform_finish_fields [OF f] by simp
  show ?thesis
  proof (intro conjI allI impI)
    fix c S
    assume "prop_of market ''collateralAsset'' = JObj c \<and> own c ''symbol'' = JStr S"
    with n assms(2) show "name out = S @ ''/'' @ L @ '' Market''"
      by (simp add: marketName_def and_then_def)
  next
    assume "nullish (prop_of market ''collateralAsset'')"
    then have "\<not> truthy (prop_of market ''collateralAsset'')"
      by (cases "prop_of market ''collateralAsset''") simp_all
    with n assms(2) show "name out = L @ '' Market''"
      by (simp add: marketName_def and_then_def)
  qed
qed

lemma fields_of_output:
  assumes "transformMarketData rt market w = (Inr out, w')"
  shows "protocol out = ''Morpho''
       \<and> optimal_usage_ratio out = FVal (9 / 10)
       \<and> reserve_factor out = FVal 0
       \<and> id' out = prop_of market ''uniqueKey''
       \<and> network out = or_else (opt_get (prop_of (prop_of market ''loanAsset'') ''chain'') ''network'')
                          (JStr ''Unknown'')
       \<and> (\<exists>n. ToString rt (network out) = Inr n \<and> source out = ''Morpho '' @ n)"
proof -
  obtain l r where l: "transform_begin rt market = Inr l"
    and f: "transform_finish rt l (rate_or_0 r) = Inr out"
    using transformMarketData_Inr [OF assms(1)] by blast
  show ?thesis
    using transform_begin_locals [OF l] transform_finish_fields [OF f] by simp
qed

text \<open>The response to a request whose markets all pass through the transformer.\<close>

lemma transformable_markets_answered:
  assumes "variables_of q = Some v"
    and "fetchMorphoMarketsAPI rt v w = (Inr (JArr markets), w1)"
    and "\<forall>m\<in>set markets. transformable rt m"
  shows "\<exists>outs w2. markets_handler rt q w = (\<lparr>status_code = 200, body = Markets outs\<rparr>, w2)
           \<and> length outs = length markets
           \<and> (\<forall>i<length markets. \<exists>l. transform_begin rt (markets ! i) = Inr l
                 \<and> transform_finish rt l
                      (own_rate rt (markets ! i)
                         (length (calls w1) + calls_issued rt (take i markets)))
                    = Inr (outs ! i))
           \<and> (\<forall>i<length markets. \<forall>p s.
                 call_args rt (markets ! i) = Some (p, s)
                 \<and> borrowRateView rt (length (calls w1) + calls_issued rt (take i markets)) p s = None
                 \<longrightarrow> rate_per_second (outs ! i) = ''0''
                     \<and> (\<forall>wi. length (calls wi) = length (calls w1) + calls_issued rt (take i markets)
                          \<longrightarrow> fst (getBorrowRateFromContract rt (markets ! i) wi) = Inr None))"
proof -
  obtain rs w2 where e: "transform_each rt markets w1 = (rs, w2)"
    and rj: "rejections 0 rs = []"
    and len: "length (fulfilled rs) = length markets"
    and each: "\<forall>i<length markets. \<exists>l. transform_begin rt (markets ! i) = Inr l
                 \<and> transform_finish rt l
                      (own_rate rt (markets ! i) (length (calls w1) + calls_issued rt (take i markets)))
                    = Inr (fulfilled rs ! i)"
    using transform_each_transformable [OF assms(3), of w1 0] by blast
  have h: "markets_handler rt q w = (\<lparr>status_code = 200, body = Markets (fulfilled rs)\<rparr>, w2)"
    using assms(1,2) e rj by (simp add: markets_handler_def Promise_all_def)
  have z: "rate_per_second (fulfilled rs ! i) = ''0''
           \<and> (\<forall>wi. length (calls wi) = length (calls w1) + calls_issued rt (take i markets)
                  \<longrightarrow> fst (getBorrowRateFromContract rt (markets ! i) wi) = Inr None)"
    if i: "i < length markets"
      and ca: "call_args rt (markets ! i) = Some (p, s)"
      and br: "borrowRateView rt (length (calls w1) + calls_issued rt (take i markets)) p s = None"
    for i p s
  proof -
    obtain l where l: "transform_begin rt (markets ! i) = Inr l"
      and f: "transform_finish rt l
                (own_rate rt (markets ! i) (length (calls w1) + calls_issued rt (take i markets)))
              = Inr (fulfilled rs ! i)"
      using each i by blast
    have "own_rate rt (markets ! i) (length (calls w1) + calls_issued rt (take i markets)) = ''0''"
      using ca br by (simp add: own_rate_def)
    with transform_finish_fields [OF f] have r0: "rate_per_second (fulfilled rs ! i) = ''0''" by simp
    have nn: "\<not> nullish (markets ! i)" using transform_begin_locals [OF l] by simp
    have "fst (getBorrowRateFromContract rt (markets ! i) wi) = Inr None"
      if "length (calls wi) = length (calls w1) + calls_issued rt (take i markets)" for wi
      using getBorrowRate_result [OF nn, of rt wi] ca br that by simp
    with r0 show ?thesis by blast
  qed
  from h len each z show ?thesis by blast
qed

subsection \<open>The claims\<close>

text \<open>
  C1. Claimed: when the GraphQL endpoint replies with a failure status and a body
  that parses as JSON, the fetch fails with an error that carries the status and,
  as \<^verbatim>\<open>details\<close>, the parsed body, and the HTTP response carries that parsed body
  as \<^verbatim>\<open>details\<close>. Evaluated on status 500 with the body \<^verbatim>\<open>{"errors":[]}\<close>, which
  parses: the error that leaves \<^verbatim>\<open>fetchMorphoMarketsAPI\<close> has no \<^verbatim>\<open>details\<close> and
  carries the raw text, and the \<^verbatim>\<open>details\<close> of the HTTP response are an object
  that wraps the raw text. The status is the one received.
\<close>

theorem parsed_error_body_is_dropped:
  "JSON_parse (replying 500 errors_body) errors_body = Inr (JObj [(''errors'', JArr [])])
   \<and> fst (fetchMorphoMarketsAPI (replying 500 errors_body) usdc_variables idle) =
       Inl (Thrown \<lparr>message = ''HTTP error! status: 500. Response not JSON: '' @ errors_body,
                    status = 500, details = None, rawResponse = Some errors_body\<rparr>)
   \<and> fst (markets_handler (replying 500 errors_body) (usdc_query QAbsent) idle) =
       \<lparr>status_code = 500,
        body = ErrorDetails (''HTTP error! status: 500. Response not JSON: '' @ errors_body)
                 (JObj [(''rawResponse'', JStr errors_body)])\<rparr>"
  by (simp add: replying_def node_def parse_examples markets_handler_def variables_usdc
        fetchMorphoMarketsAPI_def read_response_def ok_def handleGraphQLError_raw try_catch_def
        rethrow_def error_response_def error_details_def status_or_500_def show_nat_500
        errors_body_nonempty Let_def)

text \<open>
  C2. Let the symbol of the loan asset of a market be \<open>L\<close>. Whenever
  \<^verbatim>\<open>transformMarketData\<close> returns an output for the market, as it does for every
  market of the declared interface: if the collateral asset is an object whose
  symbol is \<open>S\<close>, the name of the output is \<open>S/L Market\<close>; if the collateral asset
  is \<^verbatim>\<open>null\<close> or absent, the name is \<open>L Market\<close>.
\<close>

theorem market_name_from_symbols:
  assumes "prop_of (prop_of market ''loanAsset'') ''symbol'' = JStr L"
  shows "(typed_market market \<longrightarrow> (\<exists>out w'. transformMarketData rt market w = (Inr out, w')))
       \<and> (\<forall>out w'. transformMarketData rt market w = (Inr out, w') \<longrightarrow>
             (\<forall>c S. prop_of market ''collateralAsset'' = JObj c \<and> own c ''symbol'' = JStr S
                \<longrightarrow> name out = S @ ''/'' @ L @ '' Market'')
           \<and> (nullish (prop_of market ''collateralAsset'') \<longrightarrow> name out = L @ '' Market''))"
  using typed_market_returns [of market rt w] name_of_output [OF _ assms, of rt w]
  by blast

theorem market_name_from_symbols_witness:
  "typed_market (usdc_market ''m1'' weth_with_symbol)
   \<and> typed_market (usdc_market ''m2'' JNull)
   \<and> transformMarketData node (usdc_market ''m1'' weth_with_symbol) idle =
     (Inr (usdc_output ''m1'' ''WETH/USDC Market'' ''0''),
      idle\<lparr>calls := calls idle @ [ChainCall usdc_params usdc_struct]\<rparr>)
   \<and> prop_of (prop_of (usdc_market ''m1'' weth_with_symbol) ''loanAsset'') ''symbol'' = JStr ''USDC''
   \<and> prop_of (usdc_market ''m1'' weth_with_symbol) ''collateralAsset''
       = JObj [(''address'', JStr ''0xC02a''), (''symbol'', JStr ''WETH'')]
   \<and> own [(''address'', JStr ''0xC02a''), (''symbol'', JStr ''WETH'')] ''symbol'' = JStr ''WETH''
   \<and> name (usdc_output ''m1'' ''WETH/USDC Market'' ''0'') = ''WETH/USDC Market''
   \<and> transformMarketData node (usdc_market ''m2'' JNull) idle =
       (Inr (usdc_output ''m2'' ''USDC Market'' ''0''),
        idle\<lparr>calls := calls idle
               @ [ChainCall (usdc_params\<lparr>collateralToken := JStr zero_address\<rparr>) usdc_struct]\<rparr>)
   \<and> prop_of (prop_of (usdc_market ''m2'' JNull) ''loanAsset'') ''symbol'' = JStr ''USDC''
   \<and> nullish (prop_of (usdc_market ''m2'' JNull) ''collateralAsset'')
   \<and> name (usdc_output ''m2'' ''USDC Market'' ''0'') = ''USDC Market''"
proof -
  have t: "transformMarketData node (usdc_market ''m1'' weth_with_symbol) idle =
     (Inr (usdc_output ''m1'' ''WETH/USDC Market'' ''0''),
      idle\<lparr>calls := calls idle @ [ChainCall usdc_params usdc_struct]\<rparr>)"
    by (rule usdc_transformMarketData)
       (simp_all add: node_fields usdc_call_args(2) usdc_names(1))
  have l: "prop_of (prop_of (usdc_market ''m1'' weth_with_symbol) ''loanAsset'') ''symbol''
             = JStr ''USDC''"
    by (simp add: usdc_market_def own_def)
  have c: "prop_of (usdc_market ''m1'' weth_with_symbol) ''collateralAsset''
             = JObj [(''address'', JStr ''0xC02a''), (''symbol'', JStr ''WETH'')]"
    by (simp add: usdc_market_def weth_with_symbol_def own_def)
  have s: "own [(''address'', JStr ''0xC02a''), (''symbol'', JStr ''WETH'')] ''symbol'' = JStr ''WETH''"
    by (simp add: own_def)
  from market_name_from_symbols [OF l, of node idle] t c s
  have n1: "name (usdc_output ''m1'' ''WETH/USDC Market'' ''0'')
              = ''WETH'' @ ''/'' @ ''USDC'' @ '' Market''"
    by blast
  have t': "transformMarketData node (usdc_market ''m2'' JNull) idle =
       (Inr (usdc_output ''m2'' ''USDC Market'' ''0''),
        idle\<lparr>calls := calls idle
               @ [ChainCall (usdc_params\<lparr>collateralToken := JStr zero_address\<rparr>) usdc_struct]\<rparr>)"
    by (rule usdc_transformMarketData)
       (simp_all add: node_fields usdc_call_args(3) usdc_names(2))
  have l': "prop_of (prop_of (usdc_market ''m2'' JNull) ''loanAsset'') ''symbol'' = JStr ''USDC''"
    by (simp add: usdc_market_def own_def)
  have c': "nullish (prop_of (usdc_market ''m2'' JNull) ''collateralAsset'')"
    by (simp add: usdc_market_def own_def)
  from market_name_from_symbols [OF l', of node idle] t' c'
  have n2: "name (usdc_output ''m2'' ''USDC Market'' ''0'') = ''USDC'' @ '' Market''"
    by blast
  from t l c s n1 t' l' c' n2 usdc_market_typed(2,3) show ?thesis by simp
qed

text \<open>
  C3. Claimed: \<^verbatim>\<open>first=5\<close> gives the variable \<^verbatim>\<open>first = 5\<close>, and \<^verbatim>\<open>first=-1\<close> or a
  string that is no number gives the default \<^verbatim>\<open>first = 10\<close>. Evaluated: \<^verbatim>\<open>5\<close> gives
  5; \<^verbatim>\<open>-1\<close> and \<^verbatim>\<open>abc\<close> leave \<^verbatim>\<open>first\<close> unset in the variables; the default 10 is
  what an absent parameter gives.
\<close>

theorem invalid_first_leaves_first_unset:
  "map_option first (variables_of (usdc_query (QStr ''5''))) = Some (Some 5)
   \<and> map_option first (variables_of (usdc_query (QStr ''-1''))) = Some None
   \<and> map_option first (variables_of (usdc_query (QStr ''abc''))) = Some None
   \<and> map_option first (variables_of (usdc_query QAbsent)) = Some (Some 10)"
  by (simp add: variables_of_def usdc_query_def parseInt_def is_space_def digit_val_def)

text \<open>
  C4. Let the fetch of a request return \<open>N\<close> markets, each of the declared
  interface or at least such that the transformer itself does not throw on it.
  Whatever the contract calls do, the response has status 200 and \<open>N\<close> outputs in
  the order of the markets. The output of each market is what the transformer
  builds from that market and from the rate of its own contract call alone: the
  digits the call returned, or \<^verbatim>\<open>"0"\<close>. Where the contract call of a market
  throws, \<^verbatim>\<open>getBorrowRateFromContract\<close> returns \<^verbatim>\<open>null\<close> and the
  \<^verbatim>\<open>rate_per_second\<close> of that market is \<^verbatim>\<open>"0"\<close>.
\<close>

theorem chain_failures_stay_local:
  assumes "variables_of q = Some v"
    and "fetchMorphoMarketsAPI rt v w = (Inr (JArr markets), w1)"
    and "\<forall>m\<in>set markets. typed_market m \<or> transformable rt m"
  shows "\<exists>outs w2. markets_handler rt q w = (\<lparr>status_code = 200, body = Markets outs\<rparr>, w2)
           \<and> length outs = length markets
           \<and> (\<forall>i<length markets. \<exists>l. transform_begin rt (markets ! i) = Inr l
                 \<and> transform_finish rt l
                      (own_rate rt (markets ! i)
                         (length (calls w1) + calls_issued rt (take i markets)))
                    = Inr (outs ! i))
           \<and> (\<forall>i<length markets. \<forall>p s.
                 call_args rt (markets ! i) = Some (p, s)
                 \<and> borrowRateView rt (length (calls w1) + calls_issued rt (take i markets)) p s = None
                 \<longrightarrow> rate_per_second (outs ! i) = ''0''
                     \<and> (\<forall>wi. length (calls wi) = length (calls w1) + calls_issued rt (take i markets)
                          \<longrightarrow> fst (getBorrowRateFromContract rt (markets ! i) wi) = Inr None))"
proof -
  from assms(3) have "\<forall>m\<in>set markets. transformable rt m"
    using typed_market_transformable by blast
  from transformable_markets_answered [OF assms(1,2) this] show ?thesis .
qed

theorem chain_failures_stay_local_witness:
  "variables_of (usdc_query QAbsent) = Some usdc_variables
   \<and> fetchMorphoMarketsAPI second_call_fails usdc_variables idle =
       (Inr (JArr three_markets),
        \<lparr>calls = [GraphQLRequest usdc_variables], raw_file = Some three_markets_body\<rparr>)
   \<and> list_all typed_market three_markets
   \<and> list_all (transformable second_call_fails) three_markets
   \<and> (\<exists>outs w2. markets_handler second_call_fails (usdc_query QAbsent) idle =
                    (\<lparr>status_code = 200, body = Markets outs\<rparr>, w2)
         \<and> length outs = 3
         \<and> rate_per_second (outs ! 0) = ''31709791983''
         \<and> rate_per_second (outs ! 1) = ''0''
         \<and> rate_per_second (outs ! 2) = ''31709791983'')"
proof -
  let ?rt = second_call_fails
  let ?w1 = "\<lparr>calls = [GraphQLRequest usdc_variables], raw_file = Some three_markets_body\<rparr>"
  have tr: "list_all (transformable ?rt) three_markets"
    by (simp add: three_markets_def usdc_transformable second_call_fails_fields)
  then have h3: "\<forall>m\<in>set three_markets. typed_market m \<or> transformable ?rt m"
    by (simp add: list_all_iff)
  have ca: "call_args ?rt (three_markets ! i) = Some (usdc_params, usdc_struct)" if "i < 3" for i
  proof -
    from that have "i = 0 \<or> i = 1 \<or> i = 2" by auto
    then show ?thesis
      by (auto simp: three_markets_def usdc_call_args(1) second_call_fails_fields)
  qed
  have issued: "calls_issued ?rt (take i three_markets) = i" if "i < 3" for i
  proof -
    from that have "i = 0 \<or> i = 1 \<or> i = 2" by auto
    then show ?thesis
      using ca [of 0] ca [of 1] ca [of 2]
      by (auto simp: calls_issued_def three_markets_def)
  qed
  obtain outs w2 where h: "markets_handler ?rt (usdc_query QAbsent) idle =
                             (\<lparr>status_code = 200, body = Markets outs\<rparr>, w2)"
    and len: "length outs = length three_markets"
    and each: "\<forall>i<length three_markets. \<exists>l. transform_begin ?rt (three_markets ! i) = Inr l
                 \<and> transform_finish ?rt l
                      (own_rate ?rt (three_markets ! i)
                         (length (calls ?w1) + calls_issued ?rt (take i three_markets)))
                    = Inr (outs ! i)"
    and failing: "\<forall>i<length three_markets. \<forall>p s.
                 call_args ?rt (three_markets ! i) = Some (p, s)
                 \<and> borrowRateView ?rt (length (calls ?w1) + calls_issued ?rt (take i three_markets)) p s
                     = None
                 \<longrightarrow> rate_per_second (outs ! i) = ''0''
                     \<and> (\<forall>wi. length (calls wi)
                                 = length (calls ?w1) + calls_issued ?rt (take i three_markets)
                          \<longrightarrow> fst (getBorrowRateFromContract ?rt (three_markets ! i) wi) = Inr None)"
    using chain_failures_stay_local [OF variables_usdc fetch_three_markets h3] by blast
  have n3: "length three_markets = 3" by (simp add: three_markets_def)
  have rate: "rate_per_second (outs ! i) = own_rate ?rt (three_markets ! i) (Suc i)"
    if i3: "i < 3" for i
  proof -
    from i3 n3 have "i < length three_markets" by simp
    with each obtain l where "transform_finish ?rt l
                      (own_rate ?rt (three_markets ! i)
                         (length (calls ?w1) + calls_issued ?rt (take i three_markets)))
                    = Inr (outs ! i)"
      by blast
    from transform_finish_fields [OF this] issued [OF i3] show ?thesis by simp
  qed
  have r0: "rate_per_second (outs ! 0) = ''31709791983''"
    using rate [of 0] ca [of 0] by (simp add: own_rate_def second_call_fails_fields show_rate)
  have r2: "rate_per_second (outs ! 2) = ''31709791983''"
    using rate [of 2] ca [of 2] by (simp add: own_rate_def second_call_fails_fields show_rate)
  have r1: "rate_per_second (outs ! 1) = ''0''"
    using failing n3 ca [of 1] issued [of 1] by (simp add: second_call_fails_fields)
  have ty: "list_all typed_market three_markets"
    by (simp add: three_markets_def usdc_market_typed(1))
  from h len n3 r0 r1 r2 tr ty variables_usdc fetch_three_markets show ?thesis by auto
qed




text \<open>
  C6. When the query parameter \<^verbatim>\<open>loanAssetAddress\<close> is missing or is not a string,
  the response has status 400 and the body
  \<^verbatim>\<open>{error: "Missing or invalid required query parameter: loanAssetAddress"}\<close>, and
  the world is left as it was: no GraphQL request, no contract call, no file
  written.
\<close>

theorem missing_loanAssetAddress_is_400:
  assumes "loanAssetAddress_param q = QAbsent \<or> loanAssetAddress_param q = QOther"
  shows "markets_handler rt q w =
           (\<lparr>status_code = 400,
             body = ErrorOnly ''Missing or invalid required query parameter: loanAssetAddress''\<rparr>, w)
         \<and> calls (snd (markets_handler rt q w)) = calls w"
  using assms by (auto simp: markets_handler_def variables_of_def)

theorem missing_loanAssetAddress_is_400_witness:
  "(loanAssetAddress_param \<lparr>loanAssetAddress_param = QAbsent, first_param = QStr ''5'',
                             orderBy_param = QAbsent\<rparr> = QAbsent
    \<or> loanAssetAddress_param \<lparr>loanAssetAddress_param = QAbsent, first_param = QStr ''5'',
                                orderBy_param = QAbsent\<rparr> = QOther)
   \<and> markets_handler second_call_fails
        \<lparr>loanAssetAddress_param = QAbsent, first_param = QStr ''5'', orderBy_param = QAbsent\<rparr> idle =
       (\<lparr>status_code = 400,
         body = ErrorOnly ''Missing or invalid required query parameter: loanAssetAddress''\<rparr>, idle)
   \<and> calls (snd (markets_handler second_call_fails
        \<lparr>loanAssetAddress_param = QAbsent, first_param = QStr ''5'', orderBy_param = QAbsent\<rparr> idle)) = []"
  using missing_loanAssetAddress_is_400
          [of "\<lparr>loanAssetAddress_param = QAbsent, first_param = QStr ''5'', orderBy_param = QAbsent\<rparr>"
              second_call_fails idle]
  by (simp add: idle_def)

text \<open>
  C8. A request whose \<^verbatim>\<open>loanAssetAddress\<close> is a non-empty string adds to the
  outbound calls one GraphQL request, whose variables carry
  \<^verbatim>\<open>where.loanAssetAddress_in\<close> equal to that string and \<^verbatim>\<open>where.whitelisted = true\<close>,
  followed by calls none of which is a GraphQL request.
\<close>

theorem exactly_one_graphql_request:
  assumes "loanAssetAddress_param q = QStr addr" and "addr \<noteq> []"
  shows "\<exists>v rest. where_filter v = Some \<lparr>loanAssetAddress_in = Some addr, whitelisted = Some True\<rparr>
           \<and> calls (snd (markets_handler rt q w)) = calls w @ GraphQLRequest v # rest
           \<and> filter is_graphql rest = []"
proof -
  obtain v where v: "variables_of q = Some v"
    "where_filter v = Some \<lparr>loanAssetAddress_in = Some addr, whitelisted = Some True\<rparr>"
    using assms by (simp add: variables_of_def)
  from handler_calls [OF v(1)] v(2) show ?thesis by blast
qed

theorem exactly_one_graphql_request_witness:
  "loanAssetAddress_param (usdc_query QAbsent) = QStr ''0xA0b8''
   \<and> ''0xA0b8'' \<noteq> []
   \<and> (\<exists>v rest. where_filter v = Some \<lparr>loanAssetAddress_in = Some ''0xA0b8'', whitelisted = Some True\<rparr>
         \<and> calls (snd (markets_handler second_call_fails (usdc_query QAbsent) idle))
             = GraphQLRequest v # rest
         \<and> filter is_graphql rest = [])"
proof -
  have a: "loanAssetAddress_param (usdc_query QAbsent) = QStr ''0xA0b8''"
    by (simp add: usdc_query_def)
  have b: "''0xA0b8'' \<noteq> []" by simp
  from exactly_one_graphql_request [OF a b, of second_call_fails idle] a b
  show ?thesis by (simp add: idle_def)
qed

text \<open>
  C9. Whenever a response arrives, with any status and any body, the fetch
  writes the raw body to the diagnostic file before it looks at the status or
  parses: if the write succeeds the file holds the body. What the fetch returns
  or throws, and the calls it makes, are the same whether the write succeeds or
  throws.
\<close>

theorem raw_body_saved_before_branching:
  assumes "fetch_graphql rt v = Response st text"
  shows "(writeFileSync rt text \<longrightarrow> raw_file (snd (fetchMorphoMarketsAPI rt v w)) = Some text)
       \<and> fst (fetchMorphoMarketsAPI (rt\<lparr>writeFileSync := f\<rparr>) v w) = fst (fetchMorphoMarketsAPI rt v w)
       \<and> calls (snd (fetchMorphoMarketsAPI (rt\<lparr>writeFileSync := f\<rparr>) v w))
           = calls (snd (fetchMorphoMarketsAPI rt v w))"
  using assms by (simp add: fetchMorphoMarketsAPI_def saveRawResponse_def Let_def)

theorem raw_body_saved_before_branching_witness:
  "fetch_graphql (replying 500 errors_body) usdc_variables = Response 500 errors_body
   \<and> writeFileSync (replying 500 errors_body) errors_body
   \<and> raw_file (snd (fetchMorphoMarketsAPI (replying 500 errors_body) usdc_variables idle))
       = Some errors_body
   \<and> fst (fetchMorphoMarketsAPI ((replying 500 errors_body)\<lparr>writeFileSync := (\<lambda>s. False)\<rparr>)
            usdc_variables idle)
       = fst (fetchMorphoMarketsAPI (replying 500 errors_body) usdc_variables idle)
   \<and> calls (snd (fetchMorphoMarketsAPI ((replying 500 errors_body)\<lparr>writeFileSync := (\<lambda>s. False)\<rparr>)
                   usdc_variables idle))
       = calls (snd (fetchMorphoMarketsAPI (replying 500 errors_body) usdc_variables idle))"
proof -
  have a: "fetch_graphql (replying 500 errors_body) usdc_variables = Response 500 errors_body"
    by (simp add: replying_def)
  have b: "writeFileSync (replying 500 errors_body) errors_body"
    by (simp add: replying_def node_def)
  from raw_body_saved_before_branching [OF a, of idle "\<lambda>s. False"] a b
  show ?thesis by simp
qed

text \<open>
  C10. \<^verbatim>\<open>transformMarketData\<close> returns an output for every market of the
  declared interface, and every output it returns has \<^verbatim>\<open>protocol = "Morpho"\<close>,
  \<^verbatim>\<open>optimal_usage_ratio = 0.9\<close>, \<^verbatim>\<open>reserve_factor = 0\<close>, \<^verbatim>\<open>id\<close> equal to the
  \<^verbatim>\<open>uniqueKey\<close> of the market, \<^verbatim>\<open>network\<close> equal to
  \<^verbatim>\<open>loanAsset.chain?.network || 'Unknown'\<close>, and \<^verbatim>\<open>source\<close> equal to \<^verbatim>\<open>Morpho\<close>, a
  space and that network printed as a string.
\<close>

theorem constant_output_fields:
  "(typed_market market \<longrightarrow> (\<exists>out w'. transformMarketData rt market w = (Inr out, w')))
   \<and> (\<forall>out w'. transformMarketData rt market w = (Inr out, w') \<longrightarrow>
         protocol out = ''Morpho''
       \<and> optimal_usage_ratio out = FVal (9 / 10)
       \<and> reserve_factor out = FVal 0
       \<and> id' out = prop_of market ''uniqueKey''
       \<and> network out = or_else (opt_get (prop_of (prop_of market ''loanAsset'') ''chain'') ''network'')
                          (JStr ''Unknown'')
       \<and> (\<exists>n. ToString rt (network out) = Inr n \<and> source out = ''Morpho '' @ n))"
  using typed_market_returns [of market rt w] fields_of_output [of rt market w]
  by blast

theorem constant_output_fields_witness:
  "typed_market (usdc_market ''m1'' weth_with_symbol)
   \<and> transformMarketData node (usdc_market ''m1'' weth_with_symbol) idle =
     (Inr (usdc_output ''m1'' ''WETH/USDC Market'' ''0''),
      idle\<lparr>calls := calls idle @ [ChainCall usdc_params usdc_struct]\<rparr>)
   \<and> protocol (usdc_output ''m1'' ''WETH/USDC Market'' ''0'') = ''Morpho''
   \<and> optimal_usage_ratio (usdc_output ''m1'' ''WETH/USDC Market'' ''0'') = FVal (9 / 10)
   \<and> reserve_factor (usdc_output ''m1'' ''WETH/USDC Market'' ''0'') = FVal 0
   \<and> id' (usdc_output ''m1'' ''WETH/USDC Market'' ''0'') = JStr ''m1''
   \<and> network (usdc_output ''m1'' ''WETH/USDC Market'' ''0'') = JStr ''ethereum''
   \<and> source (usdc_output ''m1'' ''WETH/USDC Market'' ''0'') = ''Morpho ethereum''"
proof -
  have t: "transformMarketData node (usdc_market ''m1'' weth_with_symbol) idle =
     (Inr (usdc_output ''m1'' ''WETH/USDC Market'' ''0''),
      idle\<lparr>calls := calls idle @ [ChainCall usdc_params usdc_struct]\<rparr>)"
    by (rule usdc_transformMarketData)
       (simp_all add: node_fields usdc_call_args(2) usdc_names(1))
  from constant_output_fields [of "usdc_market ''m1'' weth_with_symbol" node idle] t
    usdc_market_typed(2) [of "''m1''"]
  show ?thesis
    by (simp add: usdc_market_def own_def opt_get_def or_else_def usdc_output_def)
qed

end
